theory Spec2Isabelle
  imports Main
begin

section \<open>The web front end of the certificate authority (src/wfe/web-front-end.go)\<close>

text \<open>
  A shallow embedding of the request-authentication layer (\<open>verifyPOST\<close>), the error
  classifier (\<open>statusCodeFromError\<close>, \<open>sendError\<close>) and the resource handlers
  \<open>NewRegistration\<close>, \<open>NewAuthorization\<close>, \<open>RevokeCertificate\<close>, \<open>NewCertificate\<close>,
  \<open>Challenge\<close>, \<open>Registration\<close> and \<open>Authorization\<close>.

  Go's \<open>(value, err)\<close> returns are sums (\<open>Inl\<close> the error) where the value is dropped on
  error, and pairs where the code keeps the value. A run-time panic is a value of
  \<open>fault\<close>. The identifiers of accounts and challenges are \<open>int64\<close> in the source; the
  code only compares and prints them, so they are \<open>int\<close> here, and \<open>ParseInt\<close> checks the
  64-bit range itself.
\<close>

subsection \<open>Errors and HTTP status codes\<close>

text \<open>
  The error types of package \<open>core\<close>, each a string; \<open>OtherError\<close> stands for an error of
  any other Go type (a JSON, X.509 or database error).
\<close>

datatype error =
    MalformedRequestError string
  | NotSupportedError string
  | SyntaxError string
  | UnauthorizedError string
  | NotFoundError string
  | LengthRequiredError string
  | SignatureValidationError string
  | InternalServerError string
  | RateLimitedError string
  | BadNonceError string
  | NoSuchRegistrationError string
  | OtherError string

fun errorString :: "error \<Rightarrow> string" where
  "errorString (MalformedRequestError m) = m"
| "errorString (NotSupportedError m) = m"
| "errorString (SyntaxError m) = m"
| "errorString (UnauthorizedError m) = m"
| "errorString (NotFoundError m) = m"
| "errorString (LengthRequiredError m) = m"
| "errorString (SignatureValidationError m) = m"
| "errorString (InternalServerError m) = m"
| "errorString (RateLimitedError m) = m"
| "errorString (BadNonceError m) = m"
| "errorString (NoSuchRegistrationError m) = m"
| "errorString (OtherError m) = m"

fun isNoSuchRegistrationError :: "error \<Rightarrow> bool" where
  "isNoSuchRegistrationError (NoSuchRegistrationError m) = True"
| "isNoSuchRegistrationError e = False"

definition StatusOK :: int where "StatusOK = 200"
definition StatusCreated :: int where "StatusCreated = 201"
definition StatusAccepted :: int where "StatusAccepted = 202"
definition StatusBadRequest :: int where "StatusBadRequest = 400"
definition StatusForbidden :: int where "StatusForbidden = 403"
definition StatusNotFound :: int where "StatusNotFound = 404"
definition StatusMethodNotAllowed :: int where "StatusMethodNotAllowed = 405"
definition StatusConflict :: int where "StatusConflict = 409"
definition StatusLengthRequired :: int where "StatusLengthRequired = 411"
definition StatusPreconditionFailed :: int where "StatusPreconditionFailed = 412"
definition StatusInternalServerError :: int where "StatusInternalServerError = 500"
definition StatusNotImplemented :: int where "StatusNotImplemented = 501"

definition StatusRateLimited :: int where "StatusRateLimited = 429"

text \<open>The source writes \<open>statusBadNonce = 0400\<close>, a Go octal literal: 256.\<close>

definition statusBadNonce :: int where "statusBadNonce = 256"

subsection \<open>Data model\<close>

type_synonym PublicKey = string
type_synonym Time = int

datatype JsonWebKey = JsonWebKey (jwk_Key: PublicKey)

text \<open>\<open>reg_InitialIP\<close> is a \<open>net.IP\<close>; \<open>None\<close> is nil.\<close>

record Registration =
  reg_ID :: int
  reg_Key :: JsonWebKey
  reg_Contact :: "string list"
  reg_Agreement :: string
  reg_InitialIP :: "string option"

record Challenge =
  chal_ID :: int
  chal_Type :: string
  chal_Status :: string
  chal_URI :: string
  chal_AccountKey :: "JsonWebKey option"

record Authorization =
  authz_ID :: string
  authz_RegistrationID :: int
  authz_Identifier :: string
  authz_Status :: string
  authz_Expires :: "Time option"
  authz_Challenges :: "Challenge list"

record Certificate =
  cert_RegistrationID :: int
  cert_DER :: string

record CertificateStatus =
  certStatus_Status :: string

record X509Certificate =
  x509_SerialNumber :: int
  x509_PublicKey :: PublicKey

record X509CertificateRequest =
  csr_PublicKey :: PublicKey

record CertificateRequest =
  cr_CSR :: X509CertificateRequest
  cr_Bytes :: string

record Signature =
  sig_JsonWebKey :: "JsonWebKey option"
  sig_Nonce :: string

record JsonWebSignature =
  Signatures :: "Signature list"

text \<open>
  The request: its method, \<open>URL.Path\<close>, header map, body and \<open>RemoteAddr\<close>. \<open>req_Body\<close>
  is \<open>None\<close> for a nil body; otherwise it holds what \<open>ioutil.ReadAll\<close> gives, an error
  or the bytes.
\<close>

record Request =
  req_Method :: string
  req_URLPath :: string
  req_Header :: "string \<Rightarrow> string list option"
  req_Body :: "(error + string) option"
  req_RemoteAddr :: string

text \<open>
  \<open>request.Header.Get(key)\<close>: the first value stored under the canonical form of the
  key, or the empty string. The key is given in its canonical form.
\<close>

definition Header_Get :: "Request \<Rightarrow> string \<Rightarrow> string" where
  "Header_Get request key =
     (case req_Header request key of
        None \<Rightarrow> []
      | Some [] \<Rightarrow> []
      | Some (v # vs) \<Rightarrow> v)"

text \<open>The value passed to \<open>sendError\<close> as \<open>detail interface{}\<close>.\<close>

datatype detail =
    DNil
  | DErr error
  | DString string
  | DInt int
  | DKey JsonWebKey

datatype ProblemType =
    MalformedProblem
  | UnauthorizedProblem
  | RateLimitedProblem
  | BadNonceProblem
  | ServerInternalProblem

record ProblemDetails =
  problem_Type :: ProblemType
  problem_Detail :: string

text \<open>
  \<open>json.Marshal\<close> is kept symbolic: a body written to the client is the object that was
  serialized, so that its fields can be read back. Whether the serialization fails is
  decided by \<open>wfe_marshalError\<close> below.
\<close>

datatype jsonValue =
    JProblem ProblemDetails
  | JAuthorization Authorization
  | JChallenge Challenge
  | JRegistration Registration

datatype body = JSON jsonValue | Bytes string

text \<open>
  The calls a request makes, in program order: to the storage authority (SA), the
  registration authority (RA), the statistics and audit sinks, the key policy, the
  algorithm policy, the signature verification and the nonce service.
\<close>

datatype event =
    StatsInc string
  | StatsIncErrorCode int
  | StatsIncProblemType ProblemType
  | LogAudit string detail
  | LogAuditMarshal error ProblemDetails
  | LogDebug string
  | LogAuditObject string string string Registration
  | SA_GetRegistrationByKey JsonWebKey
  | SA_GetAuthorization string
  | SA_GetCertificate string
  | SA_GetCertificateStatus string
  | RA_NewRegistration Registration
  | RA_NewCertificate CertificateRequest int
  | RA_NewAuthorization Authorization int
  | RA_UpdateAuthorization Authorization int Challenge
  | RA_UpdateRegistration Registration Registration
  | RA_RevokeCertificateWithReg X509Certificate int int
  | Core_GoodKey PublicKey
  | CheckAlgorithm JsonWebKey
  | JWS_Verify JsonWebKey
  | Nonce_Valid string

fun backendCall :: "event \<Rightarrow> bool" where
  "backendCall (SA_GetRegistrationByKey k) = True"
| "backendCall (SA_GetAuthorization i) = True"
| "backendCall (SA_GetCertificate n) = True"
| "backendCall (SA_GetCertificateStatus n) = True"
| "backendCall (RA_NewRegistration g) = True"
| "backendCall (RA_NewCertificate q r) = True"
| "backendCall (RA_NewAuthorization a r) = True"
| "backendCall (RA_UpdateAuthorization a i c) = True"
| "backendCall (RA_UpdateRegistration b u) = True"
| "backendCall (RA_RevokeCertificateWithReg c r i) = True"
| "backendCall e = False"

fun isNonceCheck :: "event \<Rightarrow> bool" where
  "isNonceCheck (Nonce_Valid n) = True"
| "isNonceCheck e = False"

fun raCall :: "event \<Rightarrow> bool" where
  "raCall (RA_NewRegistration g) = True"
| "raCall (RA_NewCertificate q r) = True"
| "raCall (RA_NewAuthorization a r) = True"
| "raCall (RA_UpdateAuthorization a i c) = True"
| "raCall (RA_UpdateRegistration b u) = True"
| "raCall (RA_RevokeCertificateWithReg c r i) = True"
| "raCall e = False"

text \<open>
  The front end with its collaborators. The interfaces \<open>core.StorageGetter\<close> and
  \<open>core.RegistrationAuthority\<close>, the functions of \<open>core\<close>, \<open>go-jose\<close>, \<open>crypto/x509\<close> and
  \<open>encoding/json\<close> and \<open>net\<close>, and \<open>checkAlgorithm\<close> and \<open>getClientAddr\<close> are not among
  the sources: each is a field, a function of its arguments. \<open>json_Valid\<close> says whether
  the bytes are well-formed JSON (\<open>json.Valid\<close>); no handler calls it, it serves to state
  what holds of a payload that parses as JSON. \<open>SA_getRegistrationByKey\<close> returns the pair of the source,
  because \<open>verifyPOST\<close> returns the registration also when the lookup failed.
\<close>

record WebFrontEndImpl =
  SA_getRegistrationByKey :: "JsonWebKey \<Rightarrow> Registration \<times> error option"
  SA_getAuthorization :: "string \<Rightarrow> error + Authorization"
  SA_getCertificate :: "string \<Rightarrow> error + Certificate"
  SA_getCertificateStatus :: "string \<Rightarrow> error + CertificateStatus"
  RA_newRegistration :: "Registration \<Rightarrow> error + Registration"
  RA_newCertificate :: "CertificateRequest \<Rightarrow> int \<Rightarrow> error + Certificate"
  RA_newAuthorization :: "Authorization \<Rightarrow> int \<Rightarrow> error + Authorization"
  RA_updateAuthorization :: "Authorization \<Rightarrow> int \<Rightarrow> Challenge \<Rightarrow> error + Authorization"
  RA_updateRegistration :: "Registration \<Rightarrow> Registration \<Rightarrow> error + Registration"
  RA_revokeCertificateWithReg :: "X509Certificate \<Rightarrow> int \<Rightarrow> int \<Rightarrow> error option"
  core_GoodKey :: "PublicKey \<Rightarrow> error option"
  core_KeyDigestEquals :: "JsonWebKey \<Rightarrow> PublicKey \<Rightarrow> bool"
  core_SerialToString :: "int \<Rightarrow> string"
  wfe_checkAlgorithm :: "JsonWebKey \<Rightarrow> JsonWebSignature \<Rightarrow> string \<times> error option"
  jose_ParseSigned :: "string \<Rightarrow> error + JsonWebSignature"
  jose_Verify :: "JsonWebSignature \<Rightarrow> JsonWebKey \<Rightarrow> error + string"
  x509_ParseCertificate :: "string \<Rightarrow> error + X509Certificate"
  json_unmarshalResource :: "string \<Rightarrow> error + string"
  json_unmarshalAuthorization :: "string \<Rightarrow> error + Authorization"
  json_unmarshalChallenge :: "string \<Rightarrow> error + Challenge"
  json_unmarshalRegistration :: "string \<Rightarrow> error + Registration"
  json_unmarshalRevokeRequest :: "string \<Rightarrow> error + string"
  json_unmarshalCertificateRequest :: "string \<Rightarrow> error + CertificateRequest"
  json_Valid :: "string \<Rightarrow> bool"
  net_ParseIP :: "string \<Rightarrow> string option"
  net_SplitHostPort :: "string \<Rightarrow> error + string"
  wfe_getClientAddr :: "Request \<Rightarrow> string"
  wfe_marshalError :: "jsonValue \<Rightarrow> error option"
  clk_Now :: Time
  fmt_Time :: "Time \<Rightarrow> string"
  BaseURL :: string
  RegBase :: string
  CertBase :: string
  NewAuthz :: string
  AuthzBase :: string
  ChallengeBase :: string
  NewCert :: string
  SubscriberAgreementURL :: string

subsection \<open>The state of one request\<close>

record requestEvent =
  Requester :: int
  Contacts :: "string list"
  Errors :: "string list"

text \<open>
  \<open>http.ResponseWriter\<close>: the header list, the status code once written and the body
  written so far.
\<close>

record ResponseWriter =
  rw_Header :: "(string \<times> string) list"
  rw_Code :: "int option"
  rw_Body :: "body list"

text \<open>
  Modelled from the spec: \<open>core.NonceService\<close> is not among the sources. The registry is
  the list of the nonces that are issued and not yet consumed; \<open>Valid\<close> says whether the
  nonce is in it and consumes it.
\<close>

record state =
  trace :: "event list"
  logEvent :: requestEvent
  response :: ResponseWriter
  nonces :: "string list"

definition nonceService_Valid :: "string \<Rightarrow> string list \<Rightarrow> bool \<times> string list" where
  "nonceService_Valid n ns = (n \<in> set ns, removeAll n ns)"

definition call :: "event \<Rightarrow> state \<Rightarrow> state" where
  "call e s = s\<lparr>trace := trace s @ [e]\<rparr>"

definition statsInc :: "string \<Rightarrow> state \<Rightarrow> state" where
  "statsInc name s = call (StatsInc name) s"

text \<open>
  \<open>logEvent.AddError\<close>: the entry recorded is the format string; its arguments are not
  rendered.
\<close>

definition AddError :: "string \<Rightarrow> state \<Rightarrow> state" where
  "AddError msg s = s\<lparr>logEvent := (logEvent s)\<lparr>Errors := Errors (logEvent s) @ [msg]\<rparr>\<rparr>"

definition Header_Set :: "string \<Rightarrow> string \<Rightarrow> state \<Rightarrow> state" where
  "Header_Set k v s =
     s\<lparr>response := (response s)
        \<lparr>rw_Header := filter (\<lambda>kv. fst kv \<noteq> k) (rw_Header (response s)) @ [(k, v)]\<rparr>\<rparr>"

definition Header_Add :: "string \<Rightarrow> string \<Rightarrow> state \<Rightarrow> state" where
  "Header_Add k v s =
     s\<lparr>response := (response s)\<lparr>rw_Header := rw_Header (response s) @ [(k, v)]\<rparr>\<rparr>"

text \<open>Only the first \<open>WriteHeader\<close> takes effect; a \<open>Write\<close> before it sends 200.\<close>

definition WriteHeader :: "int \<Rightarrow> state \<Rightarrow> state" where
  "WriteHeader code s =
     (case rw_Code (response s) of
        None \<Rightarrow> s\<lparr>response := (response s)\<lparr>rw_Code := Some code\<rparr>\<rparr>
      | Some c \<Rightarrow> s)"

definition Write :: "body \<Rightarrow> state \<Rightarrow> state" where
  "Write b s =
     (let s1 = WriteHeader StatusOK s
      in s1\<lparr>response := (response s1)\<lparr>rw_Body := rw_Body (response s1) @ [b]\<rparr>\<rparr>)"

text \<open>The calls made between two states of a request.\<close>

definition emitted :: "state \<Rightarrow> state \<Rightarrow> event list" where
  "emitted s s' = drop (length (trace s)) (trace s')"

subsection \<open>The error classifier\<close>

text \<open>
  \<open>statusCodeFromError\<close> switches on the dynamic type of its argument; a value that is
  not one of the listed error types takes the default.
\<close>

fun statusCodeFromError :: "detail \<Rightarrow> int" where
  "statusCodeFromError (DErr (MalformedRequestError m)) = StatusBadRequest"
| "statusCodeFromError (DErr (NotSupportedError m)) = StatusNotImplemented"
| "statusCodeFromError (DErr (SyntaxError m)) = StatusBadRequest"
| "statusCodeFromError (DErr (UnauthorizedError m)) = StatusForbidden"
| "statusCodeFromError (DErr (NotFoundError m)) = StatusNotFound"
| "statusCodeFromError (DErr (LengthRequiredError m)) = StatusLengthRequired"
| "statusCodeFromError (DErr (SignatureValidationError m)) = StatusBadRequest"
| "statusCodeFromError (DErr (InternalServerError m)) = StatusInternalServerError"
| "statusCodeFromError (DErr (RateLimitedError m)) = StatusRateLimited"
| "statusCodeFromError (DErr (BadNonceError m)) = statusBadNonce"
| "statusCodeFromError d = StatusInternalServerError"

definition problemTypeOfCode :: "int \<Rightarrow> ProblemType" where
  "problemTypeOfCode code =
     (if code = StatusPreconditionFailed \<or> code = StatusForbidden then UnauthorizedProblem
      else if code = StatusConflict \<or> code = StatusMethodNotAllowed \<or> code = StatusNotFound
              \<or> code = StatusBadRequest \<or> code = StatusLengthRequired then MalformedProblem
      else if code = StatusRateLimited then RateLimitedProblem
      else if code = statusBadNonce then BadNonceProblem
      else ServerInternalProblem)"

text \<open>
  \<open>fmt.Sprintf(" :: %s", detail)\<close> is reached only when \<open>statusCodeFromError detail\<close> is
  not 500, that is for an error value, whose \<open>%s\<close> rendering is its message.
\<close>

fun detailSuffix :: "detail \<Rightarrow> string" where
  "detailSuffix (DErr e) = '' :: '' @ errorString e"
| "detailSuffix d = '' :: ''"

definition marshalFallback :: string where
  "marshalFallback = ''{\"detail\": \"Problem marshalling error message.\"}''"

definition sendError :: "WebFrontEndImpl \<Rightarrow> state \<Rightarrow> string \<Rightarrow> detail \<Rightarrow> int \<Rightarrow> state" where
  "sendError wfe s msg detail code =
     (let ptype = problemTypeOfCode code;
          code1 = (if ptype = BadNonceProblem then StatusBadRequest else code);
          s1 = AddError msg s;
          problem = \<lparr>problem_Type = ptype,
                     problem_Detail =
                       (if ptype \<noteq> ServerInternalProblem
                           \<and> statusCodeFromError detail \<noteq> StatusInternalServerError
                        then msg @ detailSuffix detail else msg)\<rparr>;
          s2 = (if ptype = ServerInternalProblem then call (LogAudit msg detail) s1 else s1);
          (problemDoc, s3) =
            (case wfe_marshalError wfe (JProblem problem) of
               Some err \<Rightarrow> (Bytes marshalFallback, call (LogAuditMarshal err problem) s2)
             | None \<Rightarrow> (JSON (JProblem problem), s2));
          s4 = Header_Set ''Content-Type'' ''application/problem+json'' s3;
          s5 = WriteHeader code1 s4;
          s6 = Write problemDoc s5;
          s7 = call (StatsIncErrorCode code1) s6
      in call (StatsIncProblemType (problem_Type problem)) s7)"

subsection \<open>The envelope verifier\<close>

text \<open>
  The resource names of package \<open>core\<close> are not among the sources; they are the names the
  directory of \<open>Handler\<close> uses, and nothing below depends on their values.
\<close>

definition ResourceNewReg :: string where "ResourceNewReg = ''new-reg''"
definition ResourceNewAuthz :: string where "ResourceNewAuthz = ''new-authz''"
definition ResourceNewCert :: string where "ResourceNewCert = ''new-cert''"
definition ResourceRevokeCert :: string where "ResourceRevokeCert = ''revoke-cert''"
definition ResourceRegistration :: string where "ResourceRegistration = ''reg''"
definition ResourceChallenge :: string where "ResourceChallenge = ''challenge''"

definition unknownKey :: string where
  "unknownKey = ''No registration exists matching provided key''"

definition malformedJWS :: string where
  "malformedJWS = ''Unable to read/verify body''"

text \<open>\<open>core.Registration{ID: 0}\<close>, the value \<open>verifyPOST\<close> starts from.\<close>

definition emptyRegistration :: Registration where
  "emptyRegistration =
     \<lparr>reg_ID = 0, reg_Key = JsonWebKey [], reg_Contact = [], reg_Agreement = [],
      reg_InitialIP = None\<rparr>"

text \<open>
  What \<open>verifyPOST\<close> returns: \<open>(nil, nil, reg, err)\<close> is \<open>Rejected reg err\<close> and
  \<open>(payload, key, reg, nil)\<close> is \<open>Verified payload key reg\<close>.
\<close>

datatype verified =
    Rejected Registration error
  | Verified string JsonWebKey Registration

definition setRequester :: "Registration \<Rightarrow> state \<Rightarrow> state" where
  "setRequester reg s =
     s\<lparr>logEvent := (logEvent s)\<lparr>Requester := reg_ID reg, Contacts := reg_Contact reg\<rparr>\<rparr>"

definition verifyPOST ::
  "WebFrontEndImpl \<Rightarrow> state \<Rightarrow> Request \<Rightarrow> bool \<Rightarrow> string \<Rightarrow> verified \<times> state" where
  "verifyPOST wfe s request regCheck resource =
     (let reg = emptyRegistration in
      if req_Header request ''Content-Length'' = None then
        (Rejected reg (LengthRequiredError ''Content-Length header is required for POST.''),
         AddError ''missing Content-Length header on POST''
           (statsInc ''WFE.HTTP.ClientErrors.LengthRequiredError'' s))
      else case req_Body request of
        None \<Rightarrow>
          (Rejected reg (MalformedRequestError ''No body on POST''),
           AddError ''no body on POST'' (statsInc ''WFE.Errors.NoPOSTBody'' s))
      | Some (Inl readErr) \<Rightarrow>
          (Rejected reg (InternalServerError ''unable to read request body''),
           AddError ''unable to read request body''
             (statsInc ''WFE.Errors.UnableToReadRequestBody'' s))
      | Some (Inr body) \<Rightarrow>
        (case jose_ParseSigned wfe body of
           Inl parseErr \<Rightarrow>
             (Rejected reg (SignatureValidationError ''Parse error reading JWS''),
              AddError ''could not JSON parse body into JWS: %s''
                (statsInc ''WFE.Errors.UnableToParseJWS'' s))
         | Inr parsedJws \<Rightarrow>
           if length (Signatures parsedJws) > 1 then
             (Rejected reg (SignatureValidationError ''Too many signatures in POST body''),
              AddError ''too many signatures in POST body: %d''
                (statsInc ''WFE.Errors.TooManyJWSSignaturesInPOST'' s))
           else if length (Signatures parsedJws) = 0 then
             (Rejected reg (SignatureValidationError ''POST JWS not signed''),
              AddError ''no signatures in POST body''
                (statsInc ''WFE.Errors.JWSNotSignedInPOST'' s))
           else
             (case sig_JsonWebKey (Signatures parsedJws ! 0) of
                None \<Rightarrow>
                  (Rejected reg (SignatureValidationError ''No JWK in JWS header''),
                   AddError ''no JWK in JWS signature header in POST body''
                     (statsInc ''WFE.Errors.NoJWKInJWSSignatureHeader'' s))
              | Some submittedKey \<Rightarrow>
                (let s1 = call (SA_GetRegistrationByKey submittedKey) s;
                     (reg1, lookupErr) = SA_getRegistrationByKey wfe submittedKey;
                     resolved =
                       (if (case lookupErr of None \<Rightarrow> False
                            | Some e \<Rightarrow> isNoSuchRegistrationError e) \<and> \<not> regCheck
                        then
                          (let s2 = call (Core_GoodKey (jwk_Key submittedKey)) s1 in
                           case core_GoodKey wfe (jwk_Key submittedKey) of
                             Some keyErr \<Rightarrow>
                               Inl (Rejected reg1 keyErr,
                                    AddError ''JWK in request was rejected by GoodKey: %s''
                                      (statsInc ''WFE.Errors.JWKRejectedByGoodKey'' s2))
                           | None \<Rightarrow> Inr (submittedKey, s2))
                        else
                          (case lookupErr of
                             Some err \<Rightarrow>
                               Inl (Rejected reg1 err,
                                    AddError ''unable to fetch registration by the given JWK: %s''
                                      (statsInc ''WFE.Errors.UnableToGetRegistrationByKey'' s1))
                           | None \<Rightarrow> Inr (reg_Key reg1, setRequester reg1 s1)))
                 in case resolved of
                   Inl rejected \<Rightarrow> rejected
                 | Inr (key, s2) \<Rightarrow>
                   (let s3 = call (CheckAlgorithm key) s2;
                        (statName, algErr) = wfe_checkAlgorithm wfe key parsedJws
                    in case algErr of
                      Some err \<Rightarrow> (Rejected reg1 err, statsInc statName s3)
                    | None \<Rightarrow>
                      (let s4 = call (JWS_Verify key) s3 in
                       case jose_Verify wfe parsedJws key of
                         Inl verifyErr \<Rightarrow>
                           (Rejected reg1 (SignatureValidationError ''JWS verification error''),
                            AddError ''verification of JWS with the JWK failed: %v; body: %s''
                              (statsInc ''WFE.Errors.JWSVerificationFailed'' s4))
                       | Inr payload \<Rightarrow>
                         (let nonce = sig_Nonce (Signatures parsedJws ! 0) in
                          if length nonce = 0 then
                            (Rejected reg1 (BadNonceError ''JWS has no anti-replay nonce''),
                             AddError ''JWS is missing an anti-replay nonce''
                               (statsInc ''WFE.Errors.JWSMissingNonce'' s4))
                          else
                            (let (valid, ns) = nonceService_Valid nonce (nonces s4);
                                 s5 = (call (Nonce_Valid nonce) s4)\<lparr>nonces := ns\<rparr>
                             in if \<not> valid then
                               (Rejected reg1 (BadNonceError ''JWS has invalid anti-replay nonce''),
                                AddError ''JWS has an invalid anti-replay nonce''
                                  (statsInc ''WFE.Errors.JWSInvalidNonce'' s5))
                             else
                               (case json_unmarshalResource wfe payload of
                                  Inl jsonErr \<Rightarrow>
                                    (Rejected reg1
                                       (SignatureValidationError
                                          ''Request payload did not parse as JSON''),
                                     AddError ''unable to JSON parse resource from JWS payload: %s''
                                       (statsInc ''WFE.Errors.UnparsableJWSPayload'' s5))
                                | Inr parsedResource \<Rightarrow>
                                  if parsedResource = [] then
                                    (Rejected reg1
                                       (MalformedRequestError
                                          ''Request payload does not specify a resource''),
                                     AddError ''JWS request payload does not specifiy a resource''
                                       (statsInc ''WFE.Errors.NoResourceInJWSPayload'' s5))
                                  else if resource \<noteq> parsedResource then
                                    (Rejected reg1
                                       (MalformedRequestError
                                          (''JWS resource payload does not match the HTTP resource: ''
                                             @ parsedResource @ '' != '' @ resource)),
                                     AddError ''JWS request payload does not match resource''
                                       (statsInc ''WFE.Errors.MismatchedResourceInJWSPayload'' s5))
                                  else (Verified payload key reg1, s5))))))))))"

subsection \<open>Library functions of Go the handlers use\<close>

text \<open>\<open>strings.Split(s, sep)\<close> for a separator of one character.\<close>

fun Split :: "string \<Rightarrow> char \<Rightarrow> string list" where
  "Split [] sep = [[]]"
| "Split (c # cs) sep =
     (if c = sep then [] # Split cs sep
      else (case Split cs sep of [] \<Rightarrow> [[c]] | w # ws \<Rightarrow> (c # w) # ws))"

definition isDigit :: "char \<Rightarrow> bool" where
  "isDigit c = (48 \<le> (of_char c :: int) \<and> (of_char c :: int) \<le> 57)"

fun digitsValue :: "string \<Rightarrow> int \<Rightarrow> int" where
  "digitsValue [] acc = acc"
| "digitsValue (c # cs) acc = digitsValue cs (acc * 10 + ((of_char c :: int) - 48))"

text \<open>
  \<open>strconv.ParseInt(s, 10, 64)\<close>: an optional sign, then one or more decimal digits, and
  a value in the range of \<open>int64\<close>; \<open>None\<close> is its error.
\<close>

definition ParseInt :: "string \<Rightarrow> int option" where
  "ParseInt s =
     (case s of
        [] \<Rightarrow> None
      | c # cs \<Rightarrow>
        (let neg = (c = CHR ''-'');
             ds = (if c = CHR ''+'' \<or> c = CHR ''-'' then cs else s)
         in if ds = [] \<or> \<not> list_all isDigit ds then None
            else (let un = digitsValue ds 0
                  in if \<not> neg \<and> un \<ge> 2 ^ 63 then None
                     else if neg \<and> un > 2 ^ 63 then None
                     else Some (if neg then - un else un))))"

text \<open>The rendering of \<open>%d\<close>.\<close>

function showNat :: "nat \<Rightarrow> string" where
  "showNat n =
     (if n < 10 then [char_of (48 + n)]
      else showNat (n div 10) @ [char_of (48 + n mod 10)])"
  by pat_completeness auto
termination
  by (relation "measure id") auto

declare showNat.simps [simp del]

definition showInt :: "int \<Rightarrow> string" where
  "showInt i = (if i < 0 then CHR ''-'' # showNat (nat (- i)) else showNat (nat i))"

subsection \<open>Helpers of the handlers\<close>

definition ChallengePath :: string where
  "ChallengePath = ''/acme/challenge/''"

definition IssuerPath :: string where
  "IssuerPath = ''/acme/issuer-cert''"

definition link :: "string \<Rightarrow> string \<Rightarrow> string" where
  "link url relation = ''<'' @ url @ ''>;rel=\"'' @ relation @ ''\"''"

text \<open>
  \<open>parseIDFromPath\<close> replaces the match of \<open>^.*/\<close> by the empty string. The match is
  the longest prefix that ends in a slash and lies before the first newline (\<open>.\<close> does
  not match a newline); without such a prefix the path is returned as it is.
\<close>

definition parseIDFromPath :: "string \<Rightarrow> string" where
  "parseIDFromPath path =
     (let line = takeWhile (\<lambda>c. c \<noteq> CHR 0x0A) path
      in if CHR ''/'' \<in> set line
         then drop (length line - length (takeWhile (\<lambda>c. c \<noteq> CHR ''/'') (rev line))) path
         else path)"

text \<open>
  Modelled from the spec: \<open>Authorization.FindChallenge\<close> of package \<open>core\<close> is not among
  the sources. It is a linear scan of the challenge list for the identifier, giving the
  index of the first match and \<open>-1\<close> when there is none.
\<close>

fun findChallengeFrom :: "int \<Rightarrow> Challenge list \<Rightarrow> int \<Rightarrow> int" where
  "findChallengeFrom i [] challengeID = - 1"
| "findChallengeFrom i (c # cs) challengeID =
     (if chal_ID c = challengeID then i else findChallengeFrom (i + 1) cs challengeID)"

definition FindChallenge :: "Authorization \<Rightarrow> int \<Rightarrow> int" where
  "FindChallenge authz challengeID = findChallengeFrom 0 (authz_Challenges authz) challengeID"

text \<open>
  The status string of a revoked certificate, \<open>core.OCSPStatusRevoked\<close>, is not among the
  sources; nothing below depends on its value.
\<close>

definition OCSPStatusRevoked :: string where
  "OCSPStatusRevoked = ''revoked''"

datatype fault = NilPointerDereference | IndexOutOfRange | SliceBoundsOutOfRange

definition prepChallengeForDisplay ::
  "WebFrontEndImpl \<Rightarrow> Authorization \<Rightarrow> Challenge \<Rightarrow> Challenge" where
  "prepChallengeForDisplay wfe authz challenge =
     challenge
       \<lparr>chal_URI := ChallengeBase wfe @ authz_ID authz @ ''/'' @ showInt (chal_ID challenge),
        chal_AccountKey := None,
        chal_ID := 0\<rparr>"

text \<open>
  The loop over \<open>authz.Challenges\<close> prepares each challenge in place, reading only the
  identifier of the authorization, which is cleared after the loop.
\<close>

definition prepAuthorizationForDisplay ::
  "WebFrontEndImpl \<Rightarrow> Authorization \<Rightarrow> Authorization" where
  "prepAuthorizationForDisplay wfe authz =
     authz
       \<lparr>authz_Challenges := map (prepChallengeForDisplay wfe authz) (authz_Challenges authz),
        authz_ID := [],
        authz_RegistrationID := 0\<rparr>"

text \<open>
  A body as the client may see it: a challenge without its identifier and account key,
  an authorization without its identifier and owner, with such challenges only.
\<close>

fun internalCleared :: "body \<Rightarrow> bool" where
  "internalCleared (JSON (JChallenge c)) = (chal_ID c = 0 \<and> chal_AccountKey c = None)"
| "internalCleared (JSON (JAuthorization a)) =
     (authz_ID a = [] \<and> authz_RegistrationID a = 0
      \<and> list_all (\<lambda>c. chal_ID c = 0 \<and> chal_AccountKey c = None) (authz_Challenges a))"
| "internalCleared b = True"

subsection \<open>The handlers\<close>

text \<open>
  A failed \<open>response.Write\<close> only adds a log entry; the writes below succeed. The entries
  of \<open>logEvent.Extra\<close> are left out. The identifier parsed from the path is \<open>ident\<close>
  (\<open>id\<close> in the source).
\<close>

definition NewRegistration :: "WebFrontEndImpl \<Rightarrow> state \<Rightarrow> Request \<Rightarrow> state" where
  "NewRegistration wfe s request =
     (case verifyPOST wfe s request False ResourceNewReg of
        (Rejected reg err, s1) \<Rightarrow>
          sendError wfe s1 malformedJWS (DErr err) (statusCodeFromError (DErr err))
      | (Verified body key reg, s1) \<Rightarrow>
        (let s2 = call (SA_GetRegistrationByKey key) s1 in
         case SA_getRegistrationByKey wfe key of
           (existingReg, None) \<Rightarrow>
             sendError wfe
               (Header_Set ''Location'' (RegBase wfe @ showInt (reg_ID existingReg)) s2)
               ''Registration key is already in use'' DNil StatusConflict
         | (existingReg, Some lookupErr) \<Rightarrow>
           (case json_unmarshalRegistration wfe body of
              Inl err \<Rightarrow>
                sendError wfe s2 ''Error unmarshaling JSON'' (DErr err) StatusBadRequest
            | Inr init0 \<Rightarrow>
              if length (reg_Agreement init0) > 0
                 \<and> reg_Agreement init0 \<noteq> SubscriberAgreementURL wfe then
                sendError wfe s2
                  (''Provided agreement URL ['' @ reg_Agreement init0
                     @ ''] does not match current agreement URL [''
                     @ SubscriberAgreementURL wfe @ '']'')
                  DNil StatusBadRequest
              else
                (let init1 = init0\<lparr>reg_Key := key,
                                   reg_InitialIP :=
                                     net_ParseIP wfe (Header_Get request ''X-Real-Ip'')\<rparr>;
                     resolved =
                       (case reg_InitialIP init1 of
                          Some ip \<Rightarrow> Inr init1
                        | None \<Rightarrow>
                          (case net_SplitHostPort wfe (req_RemoteAddr request) of
                             Inr host \<Rightarrow> Inr (init1\<lparr>reg_InitialIP := net_ParseIP wfe host\<rparr>)
                           | Inl splitErr \<Rightarrow> Inl splitErr))
                 in case resolved of
                   Inl splitErr \<Rightarrow>
                     sendError wfe (AddError ''Couldn't parse RemoteAddr: %s'' s2)
                       ''couldn't parse the remote (that is, the client's) address''
                       DNil StatusInternalServerError
                 | Inr init \<Rightarrow>
                   (let s3 = call (RA_NewRegistration init) s2 in
                    case RA_newRegistration wfe init of
                      Inl err \<Rightarrow>
                        sendError wfe (AddError ''unable to create new registration: %s'' s3)
                          ''Error creating new registration'' (DErr err)
                          (statusCodeFromError (DErr err))
                    | Inr reg1 \<Rightarrow>
                      (let s4 = setRequester reg1 s3;
                           regURL = RegBase wfe @ showInt (reg_ID reg1)
                       in case wfe_marshalError wfe (JRegistration reg1) of
                         Some err \<Rightarrow>
                           sendError wfe (AddError ''unable to marshal registration: %s'' s4)
                             ''Error marshaling registration'' (DErr err)
                             StatusInternalServerError
                       | None \<Rightarrow>
                         (let s5 = Header_Add ''Link'' (link (NewAuthz wfe) ''next'')
                                     (Header_Set ''Content-Type'' ''application/json''
                                       (Header_Add ''Location'' regURL s4));
                              s6 = (if length (SubscriberAgreementURL wfe) > 0
                                    then Header_Add ''Link''
                                           (link (SubscriberAgreementURL wfe)
                                              ''terms-of-service'') s5
                                    else s5)
                          in Write (JSON (JRegistration reg1))
                               (WriteHeader StatusCreated s6))))))))"

definition NewAuthorization :: "WebFrontEndImpl \<Rightarrow> state \<Rightarrow> Request \<Rightarrow> state" where
  "NewAuthorization wfe s request =
     (case verifyPOST wfe s request True ResourceNewAuthz of
        (Rejected reg err, s1) \<Rightarrow>
          (if isNoSuchRegistrationError err
           then sendError wfe s1 unknownKey (DErr err) StatusForbidden
           else sendError wfe s1 malformedJWS (DErr err) (statusCodeFromError (DErr err)))
      | (Verified body key currReg, s1) \<Rightarrow>
          if reg_Agreement currReg = [] then
            sendError wfe s1 ''Must agree to subscriber agreement before any further actions''
              DNil StatusForbidden
          else
            (case json_unmarshalAuthorization wfe body of
               Inl err \<Rightarrow>
                 sendError wfe (AddError ''unable to JSON unmarshal Authorization: %s'' s1)
                   ''Error unmarshaling JSON'' (DErr err) StatusBadRequest
             | Inr init \<Rightarrow>
               (let s2 = call (RA_NewAuthorization init (reg_ID currReg)) s1 in
                case RA_newAuthorization wfe init (reg_ID currReg) of
                  Inl err \<Rightarrow>
                    sendError wfe (AddError ''unable to create new authz: %s'' s2)
                      ''Error creating new authz'' (DErr err) (statusCodeFromError (DErr err))
                | Inr authz \<Rightarrow>
                  (let authzURL = AuthzBase wfe @ authz_ID authz;
                       authz1 = prepAuthorizationForDisplay wfe authz
                   in case wfe_marshalError wfe (JAuthorization authz1) of
                     Some err \<Rightarrow>
                       sendError wfe s2 ''Error marshaling authz'' (DErr err)
                         StatusInternalServerError
                   | None \<Rightarrow>
                       Write (JSON (JAuthorization authz1))
                         (WriteHeader StatusCreated
                           (Header_Set ''Content-Type'' ''application/json''
                             (Header_Add ''Link'' (link (NewCert wfe) ''next'')
                               (Header_Add ''Location'' authzURL s2))))))))"

definition RevokeCertificate :: "WebFrontEndImpl \<Rightarrow> state \<Rightarrow> Request \<Rightarrow> state" where
  "RevokeCertificate wfe s request =
     (case verifyPOST wfe s request False ResourceRevokeCert of
        (Rejected reg err, s1) \<Rightarrow>
          sendError wfe s1 malformedJWS (DErr err) (statusCodeFromError (DErr err))
      | (Verified body requestKey registration, s1) \<Rightarrow>
        (case json_unmarshalRevokeRequest wfe body of
           Inl err \<Rightarrow>
             sendError wfe (AddError ''Couldn't unmarshal in revoke request %s'' s1)
               ''Unable to read/verify body'' (DErr err) StatusBadRequest
         | Inr certificateDER \<Rightarrow>
           (case x509_ParseCertificate wfe certificateDER of
              Inl err \<Rightarrow>
                sendError wfe (AddError ''unable to parse revoke certificate DER: %s'' s1)
                  ''Unable to read/verify body'' (DErr err) StatusBadRequest
            | Inr providedCert \<Rightarrow>
              (let serial = core_SerialToString wfe (x509_SerialNumber providedCert);
                   s2 = call (SA_GetCertificate serial) s1
               in case SA_getCertificate wfe serial of
                 Inl err \<Rightarrow> sendError wfe s2 ''No such certificate'' (DErr err) StatusNotFound
               | Inr cert \<Rightarrow>
                 if cert_DER cert \<noteq> certificateDER then
                   sendError wfe s2 ''No such certificate'' DNil StatusNotFound
                 else
                   (case x509_ParseCertificate wfe (cert_DER cert) of
                      Inl err \<Rightarrow>
                        sendError wfe s2 ''Invalid certificate'' (DErr err)
                          StatusInternalServerError
                    | Inr parsedCertificate \<Rightarrow>
                      (let s3 = call (SA_GetCertificateStatus serial) s2 in
                       case SA_getCertificateStatus wfe serial of
                         Inl err \<Rightarrow>
                           sendError wfe
                             (AddError ''unable to get certificate status: %s'' s3)
                             ''Certificate status not yet available'' (DErr err) StatusNotFound
                       | Inr certStatus \<Rightarrow>
                         if certStatus_Status certStatus = OCSPStatusRevoked then
                           sendError wfe (AddError ''Certificate already revoked: %#v'' s3)
                             ''Certificate already revoked'' (DString []) StatusConflict
                         else if \<not> (core_KeyDigestEquals wfe requestKey
                                       (x509_PublicKey parsedCertificate)
                                     \<or> reg_ID registration = cert_RegistrationID cert) then
                           sendError wfe s3
                             ''Revocation request must be signed by private key of cert to be revoked, or by the account key of the account that issued it.''
                             (DKey requestKey) StatusForbidden
                         else
                           (let s4 = call (RA_RevokeCertificateWithReg parsedCertificate 0
                                             (reg_ID registration)) s3
                            in case RA_revokeCertificateWithReg wfe parsedCertificate 0
                                      (reg_ID registration) of
                              Some err \<Rightarrow>
                                sendError wfe (AddError ''failed to revoke certificate: %s'' s4)
                                  ''Failed to revoke certificate'' (DErr err)
                                  (statusCodeFromError (DErr err))
                            | None \<Rightarrow>
                                WriteHeader StatusOK (call (LogDebug ''Revoked %v'') s4))))))))"

text \<open>\<open>logCsr\<close> hands the client address, the request bytes and the registration to the audit log.\<close>

definition logCsr ::
  "WebFrontEndImpl \<Rightarrow> state \<Rightarrow> Request \<Rightarrow> CertificateRequest \<Rightarrow> Registration \<Rightarrow> state" where
  "logCsr wfe s request cr registration =
     call (LogAuditObject ''Certificate request'' (wfe_getClientAddr wfe request) (cr_Bytes cr)
             registration) s"

definition NewCertificate :: "WebFrontEndImpl \<Rightarrow> state \<Rightarrow> Request \<Rightarrow> state" where
  "NewCertificate wfe s request =
     (case verifyPOST wfe s request True ResourceNewCert of
        (Rejected reg0 err, s1) \<Rightarrow>
          (if isNoSuchRegistrationError err
           then sendError wfe s1 unknownKey (DErr err) StatusForbidden
           else sendError wfe s1 malformedJWS (DErr err) (statusCodeFromError (DErr err)))
      | (Verified body key reg, s1) \<Rightarrow>
          if reg_Agreement reg = [] then
            sendError wfe s1 ''Must agree to subscriber agreement before any further actions''
              DNil StatusForbidden
          else
            (case json_unmarshalCertificateRequest wfe body of
               Inl err \<Rightarrow>
                 sendError wfe
                   (AddError ''unable to JSON unmarshal CertificateRequest: %s'' s1)
                   ''Error unmarshaling certificate request'' (DErr err) StatusBadRequest
             | Inr certificateRequest \<Rightarrow>
               (let s2 = logCsr wfe s1 request certificateRequest reg;
                    s3 = call (Core_GoodKey (csr_PublicKey (cr_CSR certificateRequest))) s2
                in case core_GoodKey wfe (csr_PublicKey (cr_CSR certificateRequest)) of
                  Some err \<Rightarrow>
                    sendError wfe (AddError ''CSR public key failed GoodKey: %s'' s3)
                      ''Invalid key in certificate request'' (DErr err) StatusBadRequest
                | None \<Rightarrow>
                  (let s4 = call (RA_NewCertificate certificateRequest (reg_ID reg)) s3 in
                   case RA_newCertificate wfe certificateRequest (reg_ID reg) of
                     Inl err \<Rightarrow>
                       sendError wfe (AddError ''unable to create new cert: %s'' s4)
                         ''Error creating new cert'' (DErr err)
                         (statusCodeFromError (DErr err))
                   | Inr cert \<Rightarrow>
                     (case x509_ParseCertificate wfe (cert_DER cert) of
                        Inl err \<Rightarrow>
                          sendError wfe (AddError ''unable to parse certificate: %s'' s4)
                            ''Error creating new cert'' (DErr err) StatusBadRequest
                      | Inr parsedCertificate \<Rightarrow>
                        (let certURL = CertBase wfe
                               @ core_SerialToString wfe (x509_SerialNumber parsedCertificate)
                         in Write (Bytes (cert_DER cert))
                              (WriteHeader StatusCreated
                                (Header_Set ''Content-Type'' ''application/pkix-cert''
                                  (Header_Add ''Link'' (link (BaseURL wfe @ IssuerPath) ''up'')
                                    (Header_Add ''Location'' certURL s4))))))))))"

definition getChallenge ::
  "WebFrontEndImpl \<Rightarrow> state \<Rightarrow> Authorization \<Rightarrow> Challenge \<Rightarrow> state" where
  "getChallenge wfe s authz challenge =
     (let challenge1 = prepChallengeForDisplay wfe authz challenge in
      case wfe_marshalError wfe (JChallenge challenge1) of
        Some err \<Rightarrow>
          sendError wfe (AddError ''unable to marshal challenge: %s'' s)
            ''Failed to marshal challenge'' (DErr err) StatusInternalServerError
      | None \<Rightarrow>
        (let authzURL = AuthzBase wfe @ authz_ID authz in
         Write (JSON (JChallenge challenge1))
           (WriteHeader StatusAccepted
             (Header_Add ''Link'' (link authzURL ''up'')
               (Header_Set ''Content-Type'' ''application/json''
                 (Header_Add ''Location'' (chal_URI challenge1) s))))))"

definition postChallenge ::
  "WebFrontEndImpl \<Rightarrow> state \<Rightarrow> Request \<Rightarrow> Authorization \<Rightarrow> int \<Rightarrow> fault + state" where
  "postChallenge wfe s request authz challengeIndex =
     (case verifyPOST wfe s request True ResourceChallenge of
        (Rejected reg err, s1) \<Rightarrow>
          Inr (if isNoSuchRegistrationError err
               then sendError wfe s1 unknownKey (DErr err) StatusForbidden
               else sendError wfe s1 malformedJWS (DErr err) StatusBadRequest)
      | (Verified body key currReg, s1) \<Rightarrow>
          if reg_Agreement currReg = [] then
            Inr (sendError wfe s1
                   ''Registration didn't agree to subscriber agreement before any further actions''
                   DNil StatusForbidden)
          else if reg_ID currReg \<noteq> authz_RegistrationID authz then
            Inr (sendError wfe
                   (AddError ''User registration id: %d != Authorization registration id: %v'' s1)
                   ''User registration ID doesn't match registration ID in authorization''
                   (DString []) StatusForbidden)
          else
            (case json_unmarshalChallenge wfe body of
               Inl err \<Rightarrow>
                 Inr (sendError wfe
                        (AddError ''error JSON unmarshalling challenge response: %s'' s1)
                        ''Error unmarshaling challenge response'' (DErr err) StatusBadRequest)
             | Inr challengeUpdate \<Rightarrow>
               (let s2 = call (RA_UpdateAuthorization authz challengeIndex challengeUpdate) s1 in
                case RA_updateAuthorization wfe authz challengeIndex challengeUpdate of
                  Inl err \<Rightarrow>
                    Inr (sendError wfe (AddError ''unable to update challenge: %s'' s2)
                           ''Unable to update challenge'' (DErr err)
                           (statusCodeFromError (DErr err)))
                | Inr updatedAuthorization \<Rightarrow>
                  if challengeIndex < 0
                     \<or> int (length (authz_Challenges updatedAuthorization)) \<le> challengeIndex
                  then Inl IndexOutOfRange
                  else
                    (let challenge =
                           prepChallengeForDisplay wfe authz
                             (authz_Challenges updatedAuthorization ! nat challengeIndex)
                     in case wfe_marshalError wfe (JChallenge challenge) of
                       Some err \<Rightarrow>
                         Inr (sendError wfe (AddError ''failed to marshal challenge: %s'' s2)
                                ''Failed to marshal challenge'' (DErr err)
                                StatusInternalServerError)
                     | None \<Rightarrow>
                       (let authzURL = AuthzBase wfe @ authz_ID authz in
                        Inr (Write (JSON (JChallenge challenge))
                               (WriteHeader StatusAccepted
                                 (Header_Add ''Link'' (link authzURL ''up'')
                                   (Header_Set ''Content-Type'' ''application/json''
                                     (Header_Add ''Location'' (chal_URI challenge) s2))))))))))"

text \<open>
  The message of the expiry branch is built from \<open>*authz.Expires\<close>: the dereference comes
  first, and a nil pointer panics there.
\<close>

definition expiredMessage :: "WebFrontEndImpl \<Rightarrow> Authorization \<Rightarrow> fault + string" where
  "expiredMessage wfe authz =
     (case authz_Expires authz of
        None \<Rightarrow> Inl NilPointerDereference
      | Some t \<Rightarrow>
          Inr (''Authorization '' @ authz_ID authz @ '' expired in the past (''
                 @ fmt_Time wfe t @ '')''))"

text \<open>\<open>authz.Expires == nil || authz.Expires.Before(wfe.clk.Now())\<close>\<close>

definition expiredOrNil :: "WebFrontEndImpl \<Rightarrow> Authorization \<Rightarrow> bool" where
  "expiredOrNil wfe authz =
     (case authz_Expires authz of None \<Rightarrow> True | Some t \<Rightarrow> t < clk_Now wfe)"

definition Challenge :: "WebFrontEndImpl \<Rightarrow> state \<Rightarrow> Request \<Rightarrow> fault + state" where
  "Challenge wfe s request =
     (let notFound = (\<lambda>s0. sendError wfe s0 ''No such registration''
                              (DString (req_URLPath request)) StatusNotFound)
      in if length (req_URLPath request) < length ChallengePath then Inl SliceBoundsOutOfRange
      else
        (let slug = Split (drop (length ChallengePath) (req_URLPath request)) CHR ''/'' in
         if length slug \<noteq> 2 then Inr (notFound s)
         else
           (let authorizationID = slug ! 0 in
            case ParseInt (slug ! 1) of
              None \<Rightarrow> Inr (notFound s)
            | Some challengeID \<Rightarrow>
              (let s1 = call (SA_GetAuthorization authorizationID) s in
               case SA_getAuthorization wfe authorizationID of
                 Inl err \<Rightarrow> Inr (notFound s1)
               | Inr authz \<Rightarrow>
                 if expiredOrNil wfe authz then
                   (case expiredMessage wfe authz of
                      Inl f \<Rightarrow> Inl f
                    | Inr msg \<Rightarrow>
                        Inr (sendError wfe s1 ''Expired authorization'' (DString msg)
                               StatusNotFound))
                 else
                   (let challengeIndex = FindChallenge authz challengeID in
                    if challengeIndex = - 1 then Inr (notFound s1)
                    else if challengeIndex < 0
                            \<or> int (length (authz_Challenges authz)) \<le> challengeIndex
                    then Inl IndexOutOfRange
                    else
                      (let challenge = authz_Challenges authz ! nat challengeIndex in
                       if req_Method request = ''GET'' \<or> req_Method request = ''HEAD''
                       then Inr (getChallenge wfe s1 authz challenge)
                       else if req_Method request = ''POST''
                       then postChallenge wfe s1 request authz challengeIndex
                       else Inr s1))))))"

definition Registration :: "WebFrontEndImpl \<Rightarrow> state \<Rightarrow> Request \<Rightarrow> state" where
  "Registration wfe s request =
     (case verifyPOST wfe s request True ResourceRegistration of
        (Rejected reg err, s1) \<Rightarrow>
          (if isNoSuchRegistrationError err
           then sendError wfe s1 unknownKey (DErr err) StatusForbidden
           else sendError wfe s1 malformedJWS (DErr err) (statusCodeFromError (DErr err)))
      | (Verified body key currReg, s1) \<Rightarrow>
        (let idStr = parseIDFromPath (req_URLPath request) in
         case ParseInt idStr of
           None \<Rightarrow>
             sendError wfe (AddError ''registration ID must be an integer, was %#v'' s1)
               ''Registration ID must be an integer'' (DErr (OtherError ''strconv.ParseInt''))
               StatusBadRequest
         | Some ident \<Rightarrow>
           if ident \<le> 0 then
             sendError wfe
               (AddError ''Registration ID must be a positive non-zero integer, was %d'' s1)
               ''Registration ID must be a positive non-zero integer'' (DInt ident) StatusBadRequest
           else if ident \<noteq> reg_ID currReg then
             sendError wfe
               (AddError ''Request signing key did not match registration key: %d != %d'' s1)
               ''Request signing key did not match registration key'' (DString [])
               StatusForbidden
           else
             (case json_unmarshalRegistration wfe body of
                Inl err \<Rightarrow>
                  sendError wfe (AddError ''unable to JSON parse registration: %s'' s1)
                    ''Error unmarshaling registration'' (DErr err) StatusBadRequest
              | Inr update0 \<Rightarrow>
                if length (reg_Agreement update0) > 0
                   \<and> reg_Agreement update0 \<noteq> SubscriberAgreementURL wfe then
                  (let msg = ''Provided agreement URL ['' @ reg_Agreement update0
                               @ ''] does not match current agreement URL [''
                               @ SubscriberAgreementURL wfe @ '']''
                   in sendError wfe (AddError msg s1) msg DNil StatusBadRequest)
                else
                  (let update = update0\<lparr>reg_Key := reg_Key currReg\<rparr>;
                       s2 = call (RA_UpdateRegistration currReg update) s1
                   in case RA_updateRegistration wfe currReg update of
                     Inl err \<Rightarrow>
                       sendError wfe (AddError ''unable to update registration: %s'' s2)
                         ''Unable to update registration'' (DErr err)
                         (statusCodeFromError (DErr err))
                   | Inr updatedReg \<Rightarrow>
                     (case wfe_marshalError wfe (JRegistration updatedReg) of
                        Some err \<Rightarrow>
                          sendError wfe
                            (AddError ''unable to marshal updated registration: %s'' s2)
                            ''Failed to marshal registration'' (DErr err)
                            StatusInternalServerError
                      | None \<Rightarrow>
                        (let s3 = Header_Add ''Link'' (link (NewAuthz wfe) ''next'')
                                    (Header_Set ''Content-Type'' ''application/json'' s2);
                             s4 = (if length (SubscriberAgreementURL wfe) > 0
                                   then Header_Add ''Link''
                                          (link (SubscriberAgreementURL wfe) ''terms-of-service'')
                                          s3
                                   else s3)
                         in Write (JSON (JRegistration updatedReg))
                              (WriteHeader StatusAccepted s4)))))))"

definition Authorization :: "WebFrontEndImpl \<Rightarrow> state \<Rightarrow> Request \<Rightarrow> fault + state" where
  "Authorization wfe s request =
     (let ident = parseIDFromPath (req_URLPath request);
          s1 = call (SA_GetAuthorization ident) s
      in case SA_getAuthorization wfe ident of
        Inl err \<Rightarrow>
          Inr (sendError wfe (AddError ''No such authorization at id %s'' s1)
                 ''Unable to find authorization'' (DErr err) StatusNotFound)
      | Inr authz \<Rightarrow>
        if expiredOrNil wfe authz then
          (case expiredMessage wfe authz of
             Inl f \<Rightarrow> Inl f
           | Inr msg \<Rightarrow>
               Inr (sendError wfe s1 ''Expired authorization'' (DString msg) StatusNotFound))
        else
          (let authz1 = prepAuthorizationForDisplay wfe authz in
           case wfe_marshalError wfe (JAuthorization authz1) of
             Some err \<Rightarrow>
               Inr (sendError wfe (AddError ''Failed to JSON marshal authz: %s'' s1)
                      ''Failed to JSON marshal authz'' (DErr err) StatusInternalServerError)
           | None \<Rightarrow>
               Inr (Write (JSON (JAuthorization authz1))
                      (WriteHeader StatusOK
                        (Header_Set ''Content-Type'' ''application/json''
                          (Header_Add ''Link'' (link (NewCert wfe) ''next'') s1))))))"

subsection \<open>A small instance\<close>

text \<open>
  One account (number 1, key \<open>exKey1\<close>), one certificate (serial \<open>s1\<close>, owned by account
  1, carrying the public key of \<open>exKey2\<close>), two authorizations (\<open>az\<close>, and \<open>nil\<close> with no
  expiry) and one nonce. A body names its signer; the payload of every envelope is the
  parameter, it counts as well-formed JSON, and its resource field is the payload itself.
\<close>

definition exKey1 :: JsonWebKey where "exKey1 = JsonWebKey ''account-key''"
definition exKey2 :: JsonWebKey where "exKey2 = JsonWebKey ''cert-key''"
definition exKey3 :: JsonWebKey where "exKey3 = JsonWebKey ''other-key''"

definition exReg1 :: Registration where
  "exReg1 =
     \<lparr>reg_ID = 1, reg_Key = exKey1, reg_Contact = [], reg_Agreement = ''terms'',
      reg_InitialIP = None\<rparr>"

definition exChallenge :: Challenge where
  "exChallenge =
     \<lparr>chal_ID = 7, chal_Type = ''http-01'', chal_Status = ''pending'', chal_URI = [],
      chal_AccountKey = Some exKey1\<rparr>"

definition exAuthz :: Authorization where
  "exAuthz =
     \<lparr>authz_ID = ''az'', authz_RegistrationID = 1, authz_Identifier = ''example.com'',
      authz_Status = ''pending'', authz_Expires = Some 100, authz_Challenges = [exChallenge]\<rparr>"

definition exAuthzNil :: Authorization where
  "exAuthzNil = exAuthz\<lparr>authz_ID := ''nil'', authz_Expires := None\<rparr>"

definition exSigned :: "JsonWebKey \<Rightarrow> JsonWebSignature" where
  "exSigned k = \<lparr>Signatures = [\<lparr>sig_JsonWebKey = Some k, sig_Nonce = ''n1''\<rparr>]\<rparr>"

definition exWfe :: "string \<Rightarrow> WebFrontEndImpl" where
  "exWfe payload =
     \<lparr>SA_getRegistrationByKey =
        (\<lambda>k. if k = exKey1 then (exReg1, None)
             else (emptyRegistration, Some (NoSuchRegistrationError ''not found''))),
      SA_getAuthorization =
        (\<lambda>i. if i = ''az'' then Inr exAuthz
             else if i = ''nil'' then Inr exAuthzNil
             else Inl (NotFoundError ''no authorization'')),
      SA_getCertificate =
        (\<lambda>n. if n = ''s1'' then Inr \<lparr>cert_RegistrationID = 1, cert_DER = ''der1''\<rparr>
             else Inl (NotFoundError ''no certificate'')),
      SA_getCertificateStatus = (\<lambda>n. Inr \<lparr>certStatus_Status = ''good''\<rparr>),
      RA_newRegistration = (\<lambda>init. Inr (init\<lparr>reg_ID := 2\<rparr>)),
      RA_newCertificate =
        (\<lambda>cr regID. Inr \<lparr>cert_RegistrationID = regID, cert_DER = ''der1''\<rparr>),
      RA_newAuthorization = (\<lambda>init regID. Inr exAuthz),
      RA_updateAuthorization = (\<lambda>authz i c. Inr authz),
      RA_updateRegistration = (\<lambda>base upd. Inr upd),
      RA_revokeCertificateWithReg = (\<lambda>c r i. None),
      core_GoodKey =
        (\<lambda>k. if k = ''weak'' then Some (MalformedRequestError ''weak key'') else None),
      core_KeyDigestEquals = (\<lambda>k pk. jwk_Key k = pk),
      core_SerialToString = (\<lambda>n. if n = 1 then ''s1'' else ''s0''),
      wfe_checkAlgorithm = (\<lambda>k jws. ([], None)),
      jose_ParseSigned =
        (\<lambda>b. if b = ''unsigned'' then Inr \<lparr>Signatures = []\<rparr>
             else if b = ''by-account'' then Inr (exSigned exKey1)
             else if b = ''by-cert-key'' then Inr (exSigned exKey2)
             else if b = ''by-other-key'' then Inr (exSigned exKey3)
             else Inl (OtherError ''not a JWS'')),
      jose_Verify =
        (\<lambda>jws k. if map sig_JsonWebKey (Signatures jws) = [Some k] then Inr payload
                 else Inl (OtherError ''bad signature'')),
      x509_ParseCertificate =
        (\<lambda>der. if der = ''der1''
               then Inr \<lparr>x509_SerialNumber = 1, x509_PublicKey = ''cert-key''\<rparr>
               else Inl (OtherError ''asn1'')),
      json_unmarshalResource = (\<lambda>p. Inr p),
      json_unmarshalAuthorization = (\<lambda>p. Inr exAuthz),
      json_unmarshalChallenge = (\<lambda>p. Inr exChallenge),
      json_unmarshalRegistration =
        (\<lambda>p. Inr \<lparr>reg_ID = 0, reg_Key = exKey3, reg_Contact = [''mailto:a@example.com''],
                   reg_Agreement = [], reg_InitialIP = None\<rparr>),
      json_unmarshalRevokeRequest = (\<lambda>p. Inr ''der1''),
      json_unmarshalCertificateRequest =
        (\<lambda>p. Inr \<lparr>cr_CSR = \<lparr>csr_PublicKey = ''cert-key''\<rparr>, cr_Bytes = ''csr''\<rparr>),
      json_Valid = (\<lambda>p. True),
      net_ParseIP = (\<lambda>a. if a = ''192.0.2.1'' then Some a else None),
      net_SplitHostPort =
        (\<lambda>a. if a = ''192.0.2.1:443'' then Inr ''192.0.2.1''
             else Inl (OtherError ''missing port in address'')),
      wfe_getClientAddr = req_RemoteAddr,
      wfe_marshalError = (\<lambda>v. None),
      clk_Now = 50,
      fmt_Time = (\<lambda>t. ''t''),
      BaseURL = [],
      RegBase = ''/acme/reg/'',
      CertBase = ''/acme/cert/'',
      NewAuthz = ''/acme/new-authz'',
      AuthzBase = ''/acme/authz/'',
      ChallengeBase = ''/acme/challenge/'',
      NewCert = ''/acme/new-cert'',
      SubscriberAgreementURL = ''terms''\<rparr>"

text \<open>
  The instance whose payload is the JSON array \<open>[1]\<close>: well-formed JSON that
  \<open>json.Unmarshal\<close> cannot decode into the structure with the string field \<open>resource\<close>.
\<close>

definition exWfeArray :: WebFrontEndImpl where
  "exWfeArray =
     (exWfe ''[1]'')
       \<lparr>json_unmarshalResource :=
          (\<lambda>p. Inl (OtherError ''json: cannot unmarshal array into Go value''))\<rparr>"

definition exState :: state where
  "exState =
     \<lparr>trace = [],
      logEvent = \<lparr>Requester = 0, Contacts = [], Errors = []\<rparr>,
      response = \<lparr>rw_Header = [], rw_Code = None, rw_Body = []\<rparr>,
      nonces = [''n1'']\<rparr>"

definition exRequest :: "string \<Rightarrow> string \<Rightarrow> string \<Rightarrow> Request" where
  "exRequest method path body =
     \<lparr>req_Method = method, req_URLPath = path,
      req_Header = (\<lambda>h. if h = ''Content-Length'' then Some [''1''] else None),
      req_Body = Some (Inr body),
      req_RemoteAddr = ''192.0.2.1:443''\<rparr>"

definition exRequestNoLength :: "string \<Rightarrow> string \<Rightarrow> string \<Rightarrow> Request" where
  "exRequestNoLength method path body =
     (exRequest method path body)\<lparr>req_Header := (\<lambda>h. None)\<rparr>"


section \<open>Properties\<close>

subsection \<open>Projections of the state\<close>

lemmas status_defs =
  StatusOK_def StatusCreated_def StatusAccepted_def StatusBadRequest_def StatusForbidden_def
  StatusNotFound_def StatusMethodNotAllowed_def StatusConflict_def StatusLengthRequired_def
  StatusPreconditionFailed_def StatusInternalServerError_def StatusNotImplemented_def
  StatusRateLimited_def statusBadNonce_def

lemmas ex_defs =
  exKey1_def exKey2_def exKey3_def exReg1_def exChallenge_def exAuthz_def exAuthzNil_def
  exSigned_def exWfe_def exState_def exRequest_def exRequestNoLength_def

lemma trace_call [simp]: "trace (call e s) = trace s @ [e]"
  by (simp add: call_def)
lemma trace_statsInc [simp]: "trace (statsInc n s) = trace s @ [StatsInc n]"
  by (simp add: statsInc_def)
lemma trace_AddError [simp]: "trace (AddError m s) = trace s"
  by (simp add: AddError_def)
lemma trace_setRequester [simp]: "trace (setRequester g s) = trace s"
  by (simp add: setRequester_def)
lemma nonces_call [simp]: "nonces (call e s) = nonces s"
  by (simp add: call_def)
lemma nonces_statsInc [simp]: "nonces (statsInc n s) = nonces s"
  by (simp add: statsInc_def)
lemma nonces_AddError [simp]: "nonces (AddError m s) = nonces s"
  by (simp add: AddError_def)
lemma nonces_setRequester [simp]: "nonces (setRequester g s) = nonces s"
  by (simp add: setRequester_def)
lemma response_call [simp]: "response (call e s) = response s"
  by (simp add: call_def)
lemma response_statsInc [simp]: "response (statsInc n s) = response s"
  by (simp add: statsInc_def)
lemma response_AddError [simp]: "response (AddError m s) = response s"
  by (simp add: AddError_def)
lemma response_setRequester [simp]: "response (setRequester g s) = response s"
  by (simp add: setRequester_def)

lemma emitted_append [simp]: "trace s' = trace s @ evs \<Longrightarrow> emitted s s' = evs"
  by (simp add: emitted_def)

subsection \<open>What the verifier and the error classifier do to the state\<close>

lemma verifyPOST_effect:
  assumes "verifyPOST wfe s request regCheck resource = (r, s')"
  shows "response s' = response s
       \<and> (\<exists>evs. trace s' = trace s @ evs \<and> (\<forall>e\<in>set evs. \<not> raCall e))"
  using assms
  by (auto simp: verifyPOST_def Let_def nonceService_Valid_def
      split: option.splits sum.splits prod.splits if_splits)

lemma trace_WriteHeader [simp]: "trace (WriteHeader c s) = trace s"
  by (simp add: WriteHeader_def split: option.splits)
lemma trace_Write [simp]: "trace (Write b s) = trace s"
  by (simp add: Write_def Let_def)
lemma trace_Header_Set [simp]: "trace (Header_Set k v s) = trace s"
  by (simp add: Header_Set_def)
lemma trace_Header_Add [simp]: "trace (Header_Add k v s) = trace s"
  by (simp add: Header_Add_def)
lemma nonces_WriteHeader [simp]: "nonces (WriteHeader c s) = nonces s"
  by (simp add: WriteHeader_def split: option.splits)
lemma nonces_Write [simp]: "nonces (Write b s) = nonces s"
  by (simp add: Write_def Let_def)
lemma nonces_Header_Set [simp]: "nonces (Header_Set k v s) = nonces s"
  by (simp add: Header_Set_def)
lemma nonces_Header_Add [simp]: "nonces (Header_Add k v s) = nonces s"
  by (simp add: Header_Add_def)

lemma body_WriteHeader [simp]: "rw_Body (response (WriteHeader c s)) = rw_Body (response s)"
  by (simp add: WriteHeader_def split: option.splits)
lemma body_Write [simp]: "rw_Body (response (Write b s)) = rw_Body (response s) @ [b]"
  by (simp add: Write_def Let_def)
lemma body_Header_Set [simp]: "rw_Body (response (Header_Set k v s)) = rw_Body (response s)"
  by (simp add: Header_Set_def)
lemma body_Header_Add [simp]: "rw_Body (response (Header_Add k v s)) = rw_Body (response s)"
  by (simp add: Header_Add_def)

lemma code_WriteHeader [simp]:
  "rw_Code (response (WriteHeader c s)) =
     (case rw_Code (response s) of None \<Rightarrow> Some c | Some c0 \<Rightarrow> Some c0)"
  by (simp add: WriteHeader_def split: option.splits)
lemma code_Write [simp]:
  "rw_Code (response (Write b s)) =
     (case rw_Code (response s) of None \<Rightarrow> Some StatusOK | Some c0 \<Rightarrow> Some c0)"
  by (simp add: Write_def Let_def split: option.splits)
lemma code_Header_Set [simp]: "rw_Code (response (Header_Set k v s)) = rw_Code (response s)"
  by (simp add: Header_Set_def)
lemma code_Header_Add [simp]: "rw_Code (response (Header_Add k v s)) = rw_Code (response s)"
  by (simp add: Header_Add_def)

lemma sendError_trace:
  "\<exists>evs. trace (sendError wfe s msg d code) = trace s @ evs
       \<and> (\<forall>e\<in>set evs. \<not> backendCall e \<and> \<not> raCall e)"
  by (cases "wfe_marshalError wfe
        (JProblem \<lparr>problem_Type = problemTypeOfCode code,
                   problem_Detail =
                     (if problemTypeOfCode code \<noteq> ServerInternalProblem
                         \<and> statusCodeFromError d \<noteq> StatusInternalServerError
                      then msg @ detailSuffix d else msg)\<rparr>)";
      cases "problemTypeOfCode code = ServerInternalProblem")
    (simp_all add: sendError_def Let_def)

lemma sendError_nonces [simp]: "nonces (sendError wfe s msg d code) = nonces s"
  by (simp add: sendError_def Let_def split: option.splits)

lemma sendError_body:
  "\<exists>doc. rw_Body (response (sendError wfe s msg d code)) = rw_Body (response s) @ [doc]
       \<and> (\<forall>v. doc = JSON v \<longrightarrow> (\<exists>p. v = JProblem p \<and> problem_Type p = problemTypeOfCode code))"
  by (simp add: sendError_def Let_def split: option.splits)

lemma problemTypeOfCode_BadNonce:
  "problemTypeOfCode code = BadNonceProblem \<longleftrightarrow> code = statusBadNonce"
  by (simp add: problemTypeOfCode_def status_defs)

lemma sendError_code:
  "rw_Code (response s) = None \<Longrightarrow>
     rw_Code (response (sendError wfe s msg d code)) =
       Some (if code = statusBadNonce then StatusBadRequest else code)"
  by (simp add: sendError_def Let_def problemTypeOfCode_BadNonce split: option.splits)

subsection \<open>Runs of the small instance\<close>

lemmas run_defs = verifyPOST_def Let_def nonceService_Valid_def ex_defs
  ResourceNewAuthz_def ResourceRevokeCert_def ResourceNewReg_def ResourceChallenge_def ResourceRegistration_def

lemma ex_emitted_account:
  "emitted exState (snd (verifyPOST (exWfe p) exState (exRequest m path ''by-account'') rc res)) =
     [SA_GetRegistrationByKey exKey1, CheckAlgorithm exKey1, JWS_Verify exKey1, Nonce_Valid ''n1'']
     @ (if p = [] then [StatsInc ''WFE.Errors.NoResourceInJWSPayload'']
        else if res \<noteq> p then [StatsInc ''WFE.Errors.MismatchedResourceInJWSPayload''] else [])"
  by (simp add: run_defs emitted_def)

lemma ex_fst_verifyPOST_revoke:
  "fst (verifyPOST (exWfe ResourceRevokeCert) exState
         (exRequest ''POST'' ''/acme/revoke-cert'' ''by-cert-key'') False ResourceRevokeCert)
     = Verified ResourceRevokeCert exKey2 emptyRegistration"
  "fst (verifyPOST (exWfe ResourceRevokeCert) exState
         (exRequest ''POST'' ''/acme/revoke-cert'' ''by-account'') False ResourceRevokeCert)
     = Verified ResourceRevokeCert exKey1 exReg1"
  "fst (verifyPOST (exWfe ResourceRevokeCert) exState
         (exRequest ''POST'' ''/acme/revoke-cert'' ''by-other-key'') False ResourceRevokeCert)
     = Verified ResourceRevokeCert exKey3 emptyRegistration"
  by (simp_all add: run_defs)

lemma sendError_filter_raCall [simp]:
  assumes "n \<le> length (trace s)"
  shows "filter raCall (drop n (trace (sendError wfe s msg d code))) =
           filter raCall (drop n (trace s))"
proof -
  from sendError_trace [of wfe s msg d code]
  obtain evs where "trace (sendError wfe s msg d code) = trace s @ evs"
    and "\<forall>e\<in>set evs. \<not> raCall e"
    by blast
  with assms show ?thesis
    by (simp add: filter_empty_conv)
qed

lemma sendError_filter_backendCall [simp]:
  assumes "n \<le> length (trace s)"
  shows "filter backendCall (drop n (trace (sendError wfe s msg d code))) =
           filter backendCall (drop n (trace s))"
proof -
  from sendError_trace [of wfe s msg d code]
  obtain evs where "trace (sendError wfe s msg d code) = trace s @ evs"
    and "\<forall>e\<in>set evs. \<not> backendCall e"
    by blast
  with assms show ?thesis
    by (simp add: filter_empty_conv)
qed

lemma sendError_body_challenge [simp]:
  "JSON (JChallenge c) \<in> set (rw_Body (response (sendError wfe s msg d code))) \<longleftrightarrow>
     JSON (JChallenge c) \<in> set (rw_Body (response s))"
  using sendError_body [of wfe s msg d code] by auto

lemma sendError_body_authorization [simp]:
  "JSON (JAuthorization a) \<in> set (rw_Body (response (sendError wfe s msg d code))) \<longleftrightarrow>
     JSON (JAuthorization a) \<in> set (rw_Body (response s))"
  using sendError_body [of wfe s msg d code] by auto

lemma sendError_problem:
  assumes "rw_Code (response s) = None"
  shows "\<exists>doc. rw_Body (response (sendError wfe s msg d code)) = rw_Body (response s) @ [doc]
           \<and> (doc = Bytes marshalFallback
                \<or> (\<exists>text. doc = JSON (JProblem \<lparr>problem_Type = problemTypeOfCode code,
                                                 problem_Detail = text\<rparr>)))"
  by (simp add: sendError_def Let_def split: option.splits)

lemma sendError_counts_problem:
  "StatsIncProblemType (problemTypeOfCode code)
     \<in> set (drop (length (trace s)) (trace (sendError wfe s msg d code)))"
  by (simp add: sendError_def Let_def split: option.splits)

lemma verifyPOST_no_length:
  assumes "req_Header request ''Content-Length'' = None"
  shows "verifyPOST wfe s request regCheck resource =
           (Rejected emptyRegistration
              (LengthRequiredError ''Content-Length header is required for POST.''),
            AddError ''missing Content-Length header on POST''
              (statsInc ''WFE.HTTP.ClientErrors.LengthRequiredError'' s))"
  using assms by (simp add: verifyPOST_def Let_def)

lemma verifyPOST_Verified_regCheck:
  assumes "verifyPOST wfe s request True resource = (Verified payload key reg, s1)"
  shows "\<exists>body parsedJws submittedKey.
           req_Body request = Some (Inr body)
         \<and> jose_ParseSigned wfe body = Inr parsedJws
         \<and> sig_JsonWebKey (Signatures parsedJws ! 0) = Some submittedKey
         \<and> SA_getRegistrationByKey wfe submittedKey = (reg, None)
         \<and> key = reg_Key reg
         \<and> jose_Verify wfe parsedJws key = Inr payload"
  using assms
  by (auto simp: verifyPOST_def Let_def nonceService_Valid_def
      split: option.splits sum.splits prod.splits if_splits)

lemma ex_paths:
  "Split ''az/x7'' CHR ''/'' = [''az'', ''x7'']"
  "Split ''az'' CHR ''/'' = [''az'']"
  "Split ''nil/7'' CHR ''/'' = [''nil'', ''7'']"
  "Split ''az/7'' CHR ''/'' = [''az'', ''7'']"
  "ParseInt ''x7'' = None"
  "ParseInt ''7'' = Some 7"
  "ParseInt ''1'' = Some 1"
  "parseIDFromPath ''/acme/authz/nil'' = ''nil''"
  "parseIDFromPath ''/acme/authz/az'' = ''az''"
  "parseIDFromPath ''/acme/reg/1'' = ''1''"
  by code_simp+

lemma sendError_malformed:
  assumes fresh: "rw_Code (response s1) = None"
    and malformed: "problemTypeOfCode code = MalformedProblem"
    and since: "trace s1 = trace s @ evs"
    and body: "rw_Body (response s1) = rw_Body (response s)"
  shows "rw_Code (response (sendError wfe s1 msg d code)) = Some code
       \<and> StatsIncProblemType MalformedProblem \<in> set (emitted s (sendError wfe s1 msg d code))
       \<and> (\<exists>doc. rw_Body (response (sendError wfe s1 msg d code)) = rw_Body (response s) @ [doc]
              \<and> (doc = Bytes marshalFallback
                   \<or> (\<exists>text. doc = JSON (JProblem \<lparr>problem_Type = MalformedProblem,
                                                    problem_Detail = text\<rparr>))))"
proof -
  from malformed have "code \<noteq> statusBadNonce"
    using problemTypeOfCode_BadNonce [of code] by auto
  with sendError_code [OF fresh, of wfe msg d code]
  have "rw_Code (response (sendError wfe s1 msg d code)) = Some code"
    by simp
  moreover
  have "length (trace s) \<le> length (trace s1)"
    by (simp add: since)
  from set_drop_subset_set_drop [OF this, of "trace (sendError wfe s1 msg d code)"]
    sendError_counts_problem [of code s1 wfe msg d]
  have "StatsIncProblemType MalformedProblem \<in> set (emitted s (sendError wfe s1 msg d code))"
    by (auto simp: emitted_def malformed)
  moreover
  note sendError_problem [OF fresh, of wfe msg d code]
  ultimately show ?thesis
    by (simp add: malformed body)
qed

lemma Registration_calls:
  assumes run: "verifyPOST wfe s request True ResourceRegistration =
                  (Verified payload key currReg, s1)"
    and evs: "trace s1 = trace s @ evs"
    and none: "filter raCall evs = []"
  shows "filter raCall (emitted s (Registration wfe s request)) = []
       \<or> (\<exists>update0. json_unmarshalRegistration wfe payload = Inr update0
             \<and> filter raCall (emitted s (Registration wfe s request)) =
                  [RA_UpdateRegistration currReg (update0\<lparr>reg_Key := reg_Key currReg\<rparr>)])"
proof (cases "ParseInt (parseIDFromPath (req_URLPath request))")
  case None
  with run evs none show ?thesis
    by (simp add: Registration_def Let_def emitted_def)
next
  case (Some ident)
  show ?thesis
  proof (cases "ident \<le> 0 \<or> ident \<noteq> reg_ID currReg")
    case True
    with Some run evs none show ?thesis
      by (auto simp: Registration_def Let_def emitted_def)
  next
    case False
    show ?thesis
    proof (cases "json_unmarshalRegistration wfe payload")
      case (Inl err)
      with False Some run evs none show ?thesis
        by (simp add: Registration_def Let_def emitted_def)
    next
      case (Inr update0)
      show ?thesis
      proof (cases "length (reg_Agreement update0) > 0
                    \<and> reg_Agreement update0 \<noteq> SubscriberAgreementURL wfe")
        case True
        with Inr False Some run evs none show ?thesis
          by (simp add: Registration_def Let_def emitted_def)
      next
        case agreed: False
        let ?update = "update0\<lparr>reg_Key := reg_Key currReg\<rparr>"
        show ?thesis
        proof (cases "RA_updateRegistration wfe currReg ?update")
          case (Inl err)
          with agreed Inr False Some run evs none show ?thesis
            by (auto simp: Registration_def Let_def emitted_def)
        next
          case updated: (Inr updatedReg)
          show ?thesis
          proof (cases "wfe_marshalError wfe (JRegistration updatedReg)")
            case None
            with updated agreed Inr False Some run evs none show ?thesis
              by (auto simp: Registration_def Let_def emitted_def)
          next
            case (Some err)
            with updated agreed Inr False \<open>ParseInt (parseIDFromPath (req_URLPath request)) = Some ident\<close>
              run evs none show ?thesis
              by (auto simp: Registration_def Let_def emitted_def)
          qed
        qed
      qed
    qed
  qed
qed

lemma sendError_cleared [simp]:
  "list_all internalCleared (rw_Body (response (sendError wfe s msg d code))) =
     list_all internalCleared (rw_Body (response s))"
proof -
  from sendError_body [of wfe s msg d code]
  obtain doc where doc: "rw_Body (response (sendError wfe s msg d code)) = rw_Body (response s) @ [doc]"
    and prob: "\<forall>v. doc = JSON v \<longrightarrow> (\<exists>p. v = JProblem p \<and> problem_Type p = problemTypeOfCode code)"
    by blast
  have "internalCleared doc"
  proof (cases doc)
    case (JSON v)
    with prob obtain p where "v = JProblem p" by blast
    with JSON show ?thesis by simp
  next
    case (Bytes b)
    then show ?thesis by simp
  qed
  with doc show ?thesis by simp
qed

lemma prepChallengeForDisplay_cleared [simp]:
  "chal_ID (prepChallengeForDisplay wfe authz c) = 0"
  "chal_AccountKey (prepChallengeForDisplay wfe authz c) = None"
  by (simp_all add: prepChallengeForDisplay_def)

lemma prepAuthorizationForDisplay_cleared [simp]:
  "authz_ID (prepAuthorizationForDisplay wfe authz) = []"
  "authz_RegistrationID (prepAuthorizationForDisplay wfe authz) = 0"
  "list_all (\<lambda>c. chal_ID c = 0 \<and> chal_AccountKey c = None)
     (authz_Challenges (prepAuthorizationForDisplay wfe authz))"
  by (simp_all add: prepAuthorizationForDisplay_def list_all_iff)

lemma NewAuthorization_cleared:
  assumes before: "list_all internalCleared (rw_Body (response s))"
  shows "list_all internalCleared (rw_Body (response (NewAuthorization wfe s request)))"
proof -
  obtain r s1 where run: "verifyPOST wfe s request True ResourceNewAuthz = (r, s1)"
    by (cases "verifyPOST wfe s request True ResourceNewAuthz")
  from verifyPOST_effect [OF run] before
  have s1: "list_all internalCleared (rw_Body (response s1))"
    by simp
  show ?thesis
  proof (cases r)
    case (Rejected reg err)
    with run s1 show ?thesis
      by (simp add: NewAuthorization_def)
  next
    case (Verified body key currReg)
    show ?thesis
    proof (cases "reg_Agreement currReg = []")
      case True
      with Verified run s1 show ?thesis
        by (simp add: NewAuthorization_def)
    next
      case agreed: False
      show ?thesis
      proof (cases "json_unmarshalAuthorization wfe body")
        case (Inl err)
        with agreed Verified run s1 show ?thesis
          by (simp add: NewAuthorization_def)
      next
        case (Inr init)
        show ?thesis
        proof (cases "RA_newAuthorization wfe init (reg_ID currReg)")
          case (Inl err)
          with Inr agreed Verified run s1 show ?thesis
            by (simp add: NewAuthorization_def Let_def)
        next
          case created: (Inr authz)
          show ?thesis
          proof (cases "wfe_marshalError wfe (JAuthorization (prepAuthorizationForDisplay wfe authz))")
            case None
            with created Inr agreed Verified run s1 show ?thesis
              by (simp add: NewAuthorization_def Let_def)
          next
            case (Some err)
            with created Inr agreed Verified run s1 show ?thesis
              by (simp add: NewAuthorization_def Let_def)
          qed
        qed
      qed
    qed
  qed
qed

lemma getChallenge_cleared:
  assumes before: "list_all internalCleared (rw_Body (response s))"
  shows "list_all internalCleared (rw_Body (response (getChallenge wfe s authz challenge)))"
  using before
  by (cases "wfe_marshalError wfe (JChallenge (prepChallengeForDisplay wfe authz challenge))")
     (simp_all add: getChallenge_def Let_def)

lemma postChallenge_cleared:
  assumes before: "list_all internalCleared (rw_Body (response s))"
    and ret: "postChallenge wfe s request authz challengeIndex = Inr s'"
  shows "list_all internalCleared (rw_Body (response s'))"
proof -
  obtain r s1 where run: "verifyPOST wfe s request True ResourceChallenge = (r, s1)"
    by (cases "verifyPOST wfe s request True ResourceChallenge")
  from verifyPOST_effect [OF run] before
  have s1: "list_all internalCleared (rw_Body (response s1))"
    by simp
  show ?thesis
  proof (cases r)
    case (Rejected reg err)
    with run s1 ret show ?thesis
      by (auto simp: postChallenge_def split: if_splits)
  next
    case (Verified body key currReg)
    show ?thesis
    proof (cases "reg_Agreement currReg = [] \<or> reg_ID currReg \<noteq> authz_RegistrationID authz")
      case True
      with Verified run s1 ret show ?thesis
        by (auto simp: postChallenge_def split: if_splits)
    next
      case owner: False
      show ?thesis
      proof (cases "json_unmarshalChallenge wfe body")
        case (Inl err)
        with owner Verified run s1 ret show ?thesis
          by (auto simp: postChallenge_def)
      next
        case (Inr challengeUpdate)
        show ?thesis
        proof (cases "RA_updateAuthorization wfe authz challengeIndex challengeUpdate")
          case (Inl err)
          with Inr owner Verified run s1 ret show ?thesis
            by (auto simp: postChallenge_def Let_def)
        next
          case updated: (Inr updatedAuthorization)
          show ?thesis
          proof (cases "wfe_marshalError wfe (JChallenge (prepChallengeForDisplay wfe authz
                          (authz_Challenges updatedAuthorization ! nat challengeIndex)))")
            case None
            with updated Inr owner Verified run s1 ret show ?thesis
              by (auto simp: postChallenge_def Let_def split: if_splits)
          next
            case (Some err)
            with updated Inr owner Verified run s1 ret show ?thesis
              by (auto simp: postChallenge_def Let_def split: if_splits)
          qed
        qed
      qed
    qed
  qed
qed

lemma Authorization_cleared:
  assumes before: "list_all internalCleared (rw_Body (response s))"
    and ret: "Authorization wfe s request = Inr s'"
  shows "list_all internalCleared (rw_Body (response s'))"
proof (cases "SA_getAuthorization wfe (parseIDFromPath (req_URLPath request))")
  case (Inl err)
  with before ret show ?thesis
    by (auto simp: Authorization_def Let_def)
next
  case (Inr authz)
  show ?thesis
  proof (cases "wfe_marshalError wfe (JAuthorization (prepAuthorizationForDisplay wfe authz))")
    case None
    with Inr before ret show ?thesis
      by (auto simp: Authorization_def Let_def split: if_splits sum.splits)
  next
    case (Some err)
    with Inr before ret show ?thesis
      by (auto simp: Authorization_def Let_def split: if_splits sum.splits)
  qed
qed

lemma Challenge_cleared:
  assumes before: "list_all internalCleared (rw_Body (response s))"
    and ret: "Challenge wfe s request = Inr s'"
  shows "list_all internalCleared (rw_Body (response s'))"
proof -
  let ?slug = "Split (drop (length ChallengePath) (req_URLPath request)) CHR ''/''"
  let ?s1 = "call (SA_GetAuthorization (?slug ! 0)) s"
  have s1: "list_all internalCleared (rw_Body (response ?s1))"
    using before by simp
  from ret have long: "\<not> length (req_URLPath request) < length ChallengePath"
    by (auto simp: Challenge_def Let_def split: if_splits)
  show ?thesis
  proof (cases "length ?slug \<noteq> 2 \<or> ParseInt (?slug ! 1) = None")
    case True
    with long before ret show ?thesis
      by (auto simp: Challenge_def Let_def split: if_splits)
  next
    case False
    then obtain challengeID where slug: "length ?slug = 2" "ParseInt (?slug ! 1) = Some challengeID"
      by auto
    show ?thesis
    proof (cases "SA_getAuthorization wfe (?slug ! 0)")
      case (Inl err)
      with long slug s1 ret show ?thesis
        by (auto simp: Challenge_def Let_def)
    next
      case (Inr authz)
      show ?thesis
      proof (cases "expiredOrNil wfe authz")
        case True
        with Inr long slug s1 ret show ?thesis
          by (cases "expiredMessage wfe authz") (auto simp: Challenge_def Let_def)
      next
        case valid: False
        let ?i = "FindChallenge authz challengeID"
        show ?thesis
        proof (cases "?i = - 1")
          case True
          with valid Inr long slug s1 ret show ?thesis
            by (auto simp: Challenge_def Let_def)
        next
          case found: False
          show ?thesis
          proof (cases "?i < 0 \<or> int (length (authz_Challenges authz)) \<le> ?i")
            case True
            with found valid Inr long slug ret show ?thesis
              by (auto simp: Challenge_def Let_def)
          next
            case inRange: False
            from inRange found valid Inr long slug ret
            have "s' = getChallenge wfe ?s1 authz (authz_Challenges authz ! nat ?i)
                \<or> postChallenge wfe ?s1 request authz ?i = Inr s'
                \<or> s' = ?s1"
              by (auto simp: Challenge_def Let_def split: if_splits)
            with s1 getChallenge_cleared [OF s1] postChallenge_cleared [OF s1]
            show ?thesis
              by auto
          qed
        qed
      qed
    qed
  qed
qed

subsection \<open>The envelope verifier: signature count\<close>

text \<open>
  Claim C5. A request that carries a Content-Length header and whose body parses as a
  signed envelope with no signature, or with two or more, is rejected by \<open>verifyPOST\<close>
  with a \<open>SignatureValidationError\<close>. The only call made is one increment of a
  statistics counter: neither \<open>GetRegistrationByKey\<close> nor any other call to the storage
  or registration authority is made, and no nonce is consumed.
\<close>

theorem verifyPOST_signature_count:
  assumes header: "req_Header request ''Content-Length'' \<noteq> None"
    and body: "req_Body request = Some (Inr body)"
    and parse: "jose_ParseSigned wfe body = Inr parsedJws"
    and count: "length (Signatures parsedJws) \<noteq> 1"
  shows "\<exists>msg name s'.
           verifyPOST wfe s request regCheck resource =
             (Rejected emptyRegistration (SignatureValidationError msg), s')
           \<and> emitted s s' = [StatsInc name]
           \<and> (\<forall>e \<in> set (emitted s s'). \<not> backendCall e)
           \<and> nonces s' = nonces s"
proof (cases "1 < length (Signatures parsedJws)")
  case True
  with header body parse show ?thesis
    by (simp add: verifyPOST_def Let_def)
next
  case False
  with count have "length (Signatures parsedJws) = 0"
    by linarith
  with header body parse show ?thesis
    by (simp add: verifyPOST_def Let_def)
qed

theorem verifyPOST_signature_count_witness:
  "\<exists>msg name s'.
     verifyPOST (exWfe ResourceNewReg) exState (exRequest ''POST'' ''/acme/new-reg'' ''unsigned'')
         False ResourceNewReg =
       (Rejected emptyRegistration (SignatureValidationError msg), s')
     \<and> emitted exState s' = [StatsInc name]
     \<and> nonces s' = nonces exState"
proof -
  let ?req = "exRequest ''POST'' ''/acme/new-reg'' ''unsigned''"
  have header: "req_Header ?req ''Content-Length'' \<noteq> None"
    and body: "req_Body ?req = Some (Inr ''unsigned'')"
    by (simp_all add: exRequest_def)
  have parse: "jose_ParseSigned (exWfe ResourceNewReg) ''unsigned'' = Inr \<lparr>Signatures = []\<rparr>"
    by (simp add: exWfe_def)
  have count: "length (Signatures \<lparr>Signatures = []\<rparr>) \<noteq> 1"
    by simp
  from verifyPOST_signature_count [OF header body parse count, of exState False ResourceNewReg]
  show ?thesis
    by blast
qed


subsection \<open>The envelope verifier: which key verifies the signature\<close>


subsection \<open>The envelope verifier: the nonce is checked after the signature\<close>

text \<open>
  Claim C3. In every run of \<open>verifyPOST\<close>: if the nonce service is asked about a nonce,
  then the call right before that first (and only) nonce check is the signature
  verification, with a key for which the verification of the request's envelope succeeds,
  and the nonce is the one of the envelope's signature header; the registry of nonces
  changes only through that check; a run that accepts the request has checked a
  non-empty nonce that was valid and has consumed it; and once the signature has
  verified, a missing or invalid nonce ends the run with \<open>BadNonceError\<close> whatever the
  payload and its resource field are, so that the resource is compared only after the
  nonce check has passed.
\<close>

theorem verifyPOST_nonce_order:
  assumes run: "verifyPOST wfe s request regCheck resource = (r, s')"
  shows "(\<forall>n. Nonce_Valid n \<in> set (emitted s s') \<longrightarrow>
            (\<exists>body parsedJws key payload.
                req_Body request = Some (Inr body)
              \<and> jose_ParseSigned wfe body = Inr parsedJws
              \<and> jose_Verify wfe parsedJws key = Inr payload
              \<and> n = sig_Nonce (Signatures parsedJws ! 0)
              \<and> takeWhile (\<lambda>e. \<not> isNonceCheck e) (emitted s s') \<noteq> []
              \<and> last (takeWhile (\<lambda>e. \<not> isNonceCheck e) (emitted s s')) = JWS_Verify key
              \<and> filter isNonceCheck (emitted s s') = [Nonce_Valid n]))
       \<and> (nonces s' \<noteq> nonces s \<longrightarrow> (\<exists>n. Nonce_Valid n \<in> set (emitted s s')))
       \<and> (\<forall>payload key reg. r = Verified payload key reg \<longrightarrow>
            (\<exists>n. Nonce_Valid n \<in> set (emitted s s') \<and> n \<noteq> []
                 \<and> n \<in> set (nonces s) \<and> nonces s' = removeAll n (nonces s)))
       \<and> (\<forall>body parsedJws key payload.
             req_Body request = Some (Inr body)
           \<and> jose_ParseSigned wfe body = Inr parsedJws
           \<and> JWS_Verify key \<in> set (emitted s s')
           \<and> jose_Verify wfe parsedJws key = Inr payload
           \<and> (sig_Nonce (Signatures parsedJws ! 0) = []
               \<or> \<not> sig_Nonce (Signatures parsedJws ! 0) \<in> set (nonces s))
           \<longrightarrow> (\<exists>reg m. r = Rejected reg (BadNonceError m)))"
  using assms
  by (auto simp: verifyPOST_def Let_def nonceService_Valid_def
      split: option.splits sum.splits prod.splits if_splits)

subsection \<open>The envelope verifier: the resource field\<close>

text \<open>
  Claim C4, as amended. Take a run of \<open>verifyPOST\<close> in which the signature of the
  request's envelope verifies and the nonce of the envelope is present and accepted by
  the nonce service. If \<open>json.Unmarshal\<close> decodes the payload into the structure with the
  field \<open>resource\<close>, and that field is empty (or absent) or differs from the expected
  resource, the request is rejected with a \<open>MalformedRequestError\<close>, although the
  signature is valid. If \<open>json.Unmarshal\<close> does not decode the payload, which is also the
  case of well-formed JSON such as an array or an object whose \<open>resource\<close> is not a string,
  the request is rejected with a \<open>SignatureValidationError\<close>.
\<close>

theorem verifyPOST_resource_binding:
  assumes run: "verifyPOST wfe s request regCheck resource = (r, s')"
    and body: "req_Body request = Some (Inr body)"
    and parse: "jose_ParseSigned wfe body = Inr parsedJws"
    and called: "JWS_Verify key \<in> set (emitted s s')"
    and verified: "jose_Verify wfe parsedJws key = Inr payload"
    and present: "sig_Nonce (Signatures parsedJws ! 0) \<noteq> []"
    and accepted: "sig_Nonce (Signatures parsedJws ! 0) \<in> set (nonces s)"
  shows "(\<forall>parsedResource.
            json_unmarshalResource wfe payload = Inr parsedResource
          \<and> (parsedResource = [] \<or> parsedResource \<noteq> resource)
          \<longrightarrow> (\<exists>reg m. r = Rejected reg (MalformedRequestError m)))
       \<and> (\<forall>jsonErr.
            json_unmarshalResource wfe payload = Inl jsonErr
          \<longrightarrow> (\<exists>reg. r = Rejected reg
                         (SignatureValidationError ''Request payload did not parse as JSON'')))"
  using assms
  by (auto simp: verifyPOST_def Let_def nonceService_Valid_def
      split: option.splits sum.splits prod.splits if_splits)


theorem verifyPOST_nonce_order_witness:
  "\<exists>body parsedJws key payload.
      req_Body (exRequest ''POST'' ''/acme/new-authz'' ''by-account'') = Some (Inr body)
    \<and> jose_ParseSigned (exWfe ResourceNewAuthz) body = Inr parsedJws
    \<and> jose_Verify (exWfe ResourceNewAuthz) parsedJws key = Inr payload
    \<and> ''n1'' = sig_Nonce (Signatures parsedJws ! 0)
    \<and> last (takeWhile (\<lambda>e. \<not> isNonceCheck e)
         (emitted exState (snd (verifyPOST (exWfe ResourceNewAuthz) exState
            (exRequest ''POST'' ''/acme/new-authz'' ''by-account'') True ResourceNewAuthz))))
       = JWS_Verify key"
proof -
  let ?wfe = "exWfe ResourceNewAuthz"
  let ?req = "exRequest ''POST'' ''/acme/new-authz'' ''by-account''"
  let ?run = "verifyPOST ?wfe exState ?req True ResourceNewAuthz"
  have run: "?run = (fst ?run, snd ?run)"
    by simp
  have checked: "Nonce_Valid ''n1'' \<in> set (emitted exState (snd ?run))"
    by (simp add: ex_emitted_account)
  from verifyPOST_nonce_order [OF run] checked show ?thesis
    by blast
qed

text \<open>
  Claim C4 as it is stated fails: here the signature verifies, the nonce is accepted and
  the payload is the JSON array \<open>[1]\<close>, which parses as JSON and has no resource field,
  but the error is a \<open>SignatureValidationError\<close>, not a \<open>MalformedRequestError\<close>.
\<close>

theorem resource_binding_counterexample:
  "jose_Verify exWfeArray (exSigned exKey1) exKey1 = Inr ''[1]''
   \<and> json_Valid exWfeArray ''[1]''
   \<and> sig_Nonce (Signatures (exSigned exKey1) ! 0) \<in> set (nonces exState)
   \<and> emitted exState
        (snd (verifyPOST exWfeArray exState
           (exRequest ''POST'' ''/acme/new-authz'' ''by-account'') True ResourceNewAuthz))
       = [SA_GetRegistrationByKey exKey1, CheckAlgorithm exKey1, JWS_Verify exKey1,
          Nonce_Valid ''n1'', StatsInc ''WFE.Errors.UnparsableJWSPayload'']
   \<and> fst (verifyPOST exWfeArray exState
           (exRequest ''POST'' ''/acme/new-authz'' ''by-account'') True ResourceNewAuthz)
       = Rejected exReg1 (SignatureValidationError ''Request payload did not parse as JSON'')"
  by (simp add: run_defs exWfeArray_def emitted_def)

theorem verifyPOST_resource_binding_witness:
  "(\<exists>reg m. fst (verifyPOST (exWfe ResourceRevokeCert) exState
       (exRequest ''POST'' ''/acme/new-authz'' ''by-account'') True ResourceNewAuthz)
     = Rejected reg (MalformedRequestError m))
   \<and> (\<exists>reg. fst (verifyPOST exWfeArray exState
       (exRequest ''POST'' ''/acme/new-authz'' ''by-account'') True ResourceNewAuthz)
     = Rejected reg (SignatureValidationError ''Request payload did not parse as JSON''))"
proof -
  let ?wfe = "exWfe ResourceRevokeCert"
  let ?req = "exRequest ''POST'' ''/acme/new-authz'' ''by-account''"
  let ?run = "verifyPOST ?wfe exState ?req True ResourceNewAuthz"
  let ?runA = "verifyPOST exWfeArray exState ?req True ResourceNewAuthz"
  have run: "?run = (fst ?run, snd ?run)" and runA: "?runA = (fst ?runA, snd ?runA)"
    by simp_all
  have body: "req_Body ?req = Some (Inr ''by-account'')"
    by (simp add: exRequest_def)
  have parse: "jose_ParseSigned ?wfe ''by-account'' = Inr (exSigned exKey1)"
    and parseA: "jose_ParseSigned exWfeArray ''by-account'' = Inr (exSigned exKey1)"
    by (simp_all add: exWfe_def exWfeArray_def)
  have called: "JWS_Verify exKey1 \<in> set (emitted exState (snd ?run))"
    by (simp add: ex_emitted_account)
  have calledA: "JWS_Verify exKey1 \<in> set (emitted exState (snd ?runA))"
    by (simp add: run_defs exWfeArray_def emitted_def)
  have verified: "jose_Verify ?wfe (exSigned exKey1) exKey1 = Inr ResourceRevokeCert"
    and verifiedA: "jose_Verify exWfeArray (exSigned exKey1) exKey1 = Inr ''[1]''"
    by (simp_all add: exWfe_def exWfeArray_def exSigned_def)
  have present: "sig_Nonce (Signatures (exSigned exKey1) ! 0) \<noteq> []"
    and accepted: "sig_Nonce (Signatures (exSigned exKey1) ! 0) \<in> set (nonces exState)"
    by (simp_all add: exSigned_def exState_def)
  have json: "json_unmarshalResource ?wfe ResourceRevokeCert = Inr ResourceRevokeCert
              \<and> (ResourceRevokeCert = [] \<or> ResourceRevokeCert \<noteq> ResourceNewAuthz)"
    by (simp add: exWfe_def ResourceRevokeCert_def ResourceNewAuthz_def)
  have jsonA: "json_unmarshalResource exWfeArray ''[1]'' =
                 Inl (OtherError ''json: cannot unmarshal array into Go value'')"
    by (simp add: exWfeArray_def)
  from verifyPOST_resource_binding [OF run body parse called verified present accepted] json
  have "\<exists>reg m. fst ?run = Rejected reg (MalformedRequestError m)"
    by blast
  moreover
  from verifyPOST_resource_binding [OF runA body parseA calledA verifiedA present accepted] jsonA
  have "\<exists>reg. fst ?runA = Rejected reg
                 (SignatureValidationError ''Request payload did not parse as JSON'')"
    by blast
  ultimately show ?thesis
    by simp
qed

subsection \<open>Revocation: who may revoke\<close>

text \<open>
  Claim C1. Take a revoke-certificate request whose envelope verifies, whose submitted
  certificate parses, is stored under its serial with exactly the submitted bytes, and
  whose stored status is not revoked; the response is still unwritten. Then the handler
  calls the registration authority if and only if the key that verified the request
  matches the public key of the certificate (\<open>KeyDigestEquals\<close>) or the requester's
  account number equals the number of the account that owns the certificate. When it
  does, the only call to the authority is \<open>RevokeCertificateWithReg\<close> for that
  certificate, with reason 0 and the requester's account number. When it does not, the
  response has status 403 and no call to the authority is made.
\<close>

theorem RevokeCertificate_authorization:
  assumes verified: "verifyPOST wfe s request False ResourceRevokeCert =
                       (Verified body requestKey registration, s1)"
    and unmarshal: "json_unmarshalRevokeRequest wfe body = Inr certificateDER"
    and provided: "x509_ParseCertificate wfe certificateDER = Inr parsedCertificate"
    and stored: "SA_getCertificate wfe
                   (core_SerialToString wfe (x509_SerialNumber parsedCertificate)) = Inr cert"
    and identical: "cert_DER cert = certificateDER"
    and status: "SA_getCertificateStatus wfe
                   (core_SerialToString wfe (x509_SerialNumber parsedCertificate)) = Inr certStatus"
    and notRevoked: "certStatus_Status certStatus \<noteq> OCSPStatusRevoked"
    and fresh: "rw_Code (response s) = None"
  shows "((\<exists>e\<in>set (emitted s (RevokeCertificate wfe s request)). raCall e) \<longleftrightarrow>
            (core_KeyDigestEquals wfe requestKey (x509_PublicKey parsedCertificate)
             \<or> reg_ID registration = cert_RegistrationID cert))
       \<and> (core_KeyDigestEquals wfe requestKey (x509_PublicKey parsedCertificate)
            \<or> reg_ID registration = cert_RegistrationID cert \<longrightarrow>
          filter raCall (emitted s (RevokeCertificate wfe s request)) =
            [RA_RevokeCertificateWithReg parsedCertificate 0 (reg_ID registration)])
       \<and> (\<not> (core_KeyDigestEquals wfe requestKey (x509_PublicKey parsedCertificate)
               \<or> reg_ID registration = cert_RegistrationID cert) \<longrightarrow>
          rw_Code (response (RevokeCertificate wfe s request)) = Some StatusForbidden)"
proof -
  let ?serial = "core_SerialToString wfe (x509_SerialNumber parsedCertificate)"
  let ?revoke = "RA_RevokeCertificateWithReg parsedCertificate 0 (reg_ID registration)"
  let ?authorized = "core_KeyDigestEquals wfe requestKey (x509_PublicKey parsedCertificate)
             \<or> reg_ID registration = cert_RegistrationID cert"
  let ?s3 = "call (SA_GetCertificateStatus ?serial) (call (SA_GetCertificate ?serial) s1)"
  from verifyPOST_effect [OF verified]
  obtain evs where evs: "trace s1 = trace s @ evs" "\<forall>e\<in>set evs. \<not> raCall e"
    and fresh1: "rw_Code (response s1) = None"
    using fresh by auto
  have s3: "trace ?s3 = trace s @ evs @ [SA_GetCertificate ?serial, SA_GetCertificateStatus ?serial]"
    by (simp add: evs)
  have parsed: "x509_ParseCertificate wfe (cert_DER cert) = Inr parsedCertificate"
    using provided identical by simp
  show ?thesis
  proof (cases ?authorized)
    case True
    show ?thesis
    proof (cases "RA_revokeCertificateWithReg wfe parsedCertificate 0 (reg_ID registration)")
      case None
      have "RevokeCertificate wfe s request =
          WriteHeader StatusOK (call (LogDebug ''Revoked %v'') (call ?revoke ?s3))"
        unfolding RevokeCertificate_def
        using True None verified unmarshal provided stored identical status notRevoked parsed
        by (auto simp: Let_def)
      then have "emitted s (RevokeCertificate wfe s request) =
          evs @ [SA_GetCertificate ?serial, SA_GetCertificateStatus ?serial, ?revoke,
                 LogDebug ''Revoked %v'']"
        by (simp add: evs)
      with True evs(2) show ?thesis
        by (auto simp: filter_empty_conv)
    next
      case (Some err)
      have eq: "RevokeCertificate wfe s request =
          sendError wfe (AddError ''failed to revoke certificate: %s'' (call ?revoke ?s3))
            ''Failed to revoke certificate'' (DErr err) (statusCodeFromError (DErr err))"
        unfolding RevokeCertificate_def
        using True Some verified unmarshal provided stored identical status notRevoked parsed
        by (auto simp: Let_def)
      from sendError_trace [of wfe "AddError ''failed to revoke certificate: %s'' (call ?revoke ?s3)"
          "''Failed to revoke certificate''" "DErr err" "statusCodeFromError (DErr err)"]
      obtain evs2 where evs2: "trace (RevokeCertificate wfe s request) =
          trace (AddError ''failed to revoke certificate: %s'' (call ?revoke ?s3)) @ evs2"
          "\<forall>e\<in>set evs2. \<not> raCall e"
        unfolding eq by blast
      then have "emitted s (RevokeCertificate wfe s request) =
          evs @ [SA_GetCertificate ?serial, SA_GetCertificateStatus ?serial, ?revoke] @ evs2"
        by (simp add: evs)
      with True evs(2) evs2(2) show ?thesis
        by (auto simp: filter_empty_conv)
    qed
  next
    case False
    let ?msg = "''Revocation request must be signed by private key of cert to be revoked, or by the account key of the account that issued it.''"
    have eq: "RevokeCertificate wfe s request =
        sendError wfe ?s3 ?msg (DKey requestKey) StatusForbidden"
      unfolding RevokeCertificate_def
      using False verified unmarshal provided stored identical status notRevoked parsed
      by (simp add: Let_def)
    from sendError_trace [of wfe ?s3 ?msg "DKey requestKey" StatusForbidden]
    obtain evs2 where evs2: "trace (RevokeCertificate wfe s request) = trace ?s3 @ evs2"
        "\<forall>e\<in>set evs2. \<not> raCall e"
      unfolding eq by blast
    have code: "rw_Code (response (RevokeCertificate wfe s request)) = Some StatusForbidden"
      unfolding eq using sendError_code [of ?s3 wfe ?msg "DKey requestKey" StatusForbidden] fresh1
      by (simp add: status_defs)
    from evs2 have "emitted s (RevokeCertificate wfe s request) =
        evs @ [SA_GetCertificate ?serial, SA_GetCertificateStatus ?serial] @ evs2"
      by (simp add: evs)
    with False evs(2) evs2(2) code show ?thesis
      by auto
  qed
qed

text \<open>
  The four rows of the truth table on the small instance: the key of the certificate
  without an account, the owning account with another key, neither, and both.
\<close>

theorem RevokeCertificate_authorization_witness:
  "filter raCall (emitted exState (RevokeCertificate (exWfe ResourceRevokeCert) exState
       (exRequest ''POST'' ''/acme/revoke-cert'' ''by-cert-key''))) =
     [RA_RevokeCertificateWithReg \<lparr>x509_SerialNumber = 1, x509_PublicKey = ''cert-key''\<rparr> 0 0]
   \<and> filter raCall (emitted exState (RevokeCertificate (exWfe ResourceRevokeCert) exState
       (exRequest ''POST'' ''/acme/revoke-cert'' ''by-account''))) =
     [RA_RevokeCertificateWithReg \<lparr>x509_SerialNumber = 1, x509_PublicKey = ''cert-key''\<rparr> 0 1]
   \<and> rw_Code (response (RevokeCertificate (exWfe ResourceRevokeCert) exState
       (exRequest ''POST'' ''/acme/revoke-cert'' ''by-other-key''))) = Some StatusForbidden
   \<and> filter raCall (emitted exState (RevokeCertificate
       ((exWfe ResourceRevokeCert)
          \<lparr>x509_ParseCertificate :=
             (\<lambda>der. Inr \<lparr>x509_SerialNumber = 1, x509_PublicKey = ''account-key''\<rparr>)\<rparr>)
       exState (exRequest ''POST'' ''/acme/revoke-cert'' ''by-account''))) =
     [RA_RevokeCertificateWithReg \<lparr>x509_SerialNumber = 1, x509_PublicKey = ''account-key''\<rparr> 0 1]"
proof -
  let ?wfe = "exWfe ResourceRevokeCert"
  let ?pc = "\<lparr>x509_SerialNumber = 1, x509_PublicKey = ''cert-key''\<rparr>"
  let ?cert = "\<lparr>cert_RegistrationID = 1, cert_DER = ''der1''\<rparr>"
  let ?st = "\<lparr>certStatus_Status = ''good''\<rparr>"
  have unmarshal: "json_unmarshalRevokeRequest ?wfe ResourceRevokeCert = Inr ''der1''"
    and provided: "x509_ParseCertificate ?wfe ''der1'' = Inr ?pc"
    and stored: "SA_getCertificate ?wfe (core_SerialToString ?wfe (x509_SerialNumber ?pc)) = Inr ?cert"
    and identical: "cert_DER ?cert = ''der1''"
    and status: "SA_getCertificateStatus ?wfe (core_SerialToString ?wfe (x509_SerialNumber ?pc)) = Inr ?st"
    and notRevoked: "certStatus_Status ?st \<noteq> OCSPStatusRevoked"
    and fresh: "rw_Code (response exState) = None"
    by (simp_all add: exWfe_def exState_def OCSPStatusRevoked_def)
  have verified:
    "fst (verifyPOST ?wfe exState (exRequest ''POST'' ''/acme/revoke-cert'' b) False ResourceRevokeCert)
       = Verified ResourceRevokeCert k r \<Longrightarrow>
     verifyPOST ?wfe exState (exRequest ''POST'' ''/acme/revoke-cert'' b) False ResourceRevokeCert =
       (Verified ResourceRevokeCert k r,
        snd (verifyPOST ?wfe exState (exRequest ''POST'' ''/acme/revoke-cert'' b) False ResourceRevokeCert))"
    for b k r
    by (simp add: prod_eq_iff)
  have a: "core_KeyDigestEquals ?wfe exKey2 (x509_PublicKey ?pc)"
    and b: "reg_ID exReg1 = cert_RegistrationID ?cert"
    and c: "\<not> (core_KeyDigestEquals ?wfe exKey3 (x509_PublicKey ?pc)
               \<or> reg_ID emptyRegistration = cert_RegistrationID ?cert)"
    by (simp_all add: ex_defs emptyRegistration_def)
  from RevokeCertificate_authorization
    [OF verified [OF ex_fst_verifyPOST_revoke(1)] unmarshal provided stored identical status
        notRevoked fresh] a
  have "filter raCall (emitted exState (RevokeCertificate ?wfe exState
           (exRequest ''POST'' ''/acme/revoke-cert'' ''by-cert-key''))) =
          [RA_RevokeCertificateWithReg ?pc 0 0]"
    by (simp add: emptyRegistration_def)
  moreover
  from RevokeCertificate_authorization
    [OF verified [OF ex_fst_verifyPOST_revoke(2)] unmarshal provided stored identical status
        notRevoked fresh] b
  have "filter raCall (emitted exState (RevokeCertificate ?wfe exState
           (exRequest ''POST'' ''/acme/revoke-cert'' ''by-account''))) =
          [RA_RevokeCertificateWithReg ?pc 0 1]"
    by (simp add: exReg1_def)
  moreover
  from RevokeCertificate_authorization
    [OF verified [OF ex_fst_verifyPOST_revoke(3)] unmarshal provided stored identical status
        notRevoked fresh] c
  have "rw_Code (response (RevokeCertificate ?wfe exState
           (exRequest ''POST'' ''/acme/revoke-cert'' ''by-other-key''))) = Some StatusForbidden"
    by blast
  moreover
  let ?wfe4 = "(exWfe ResourceRevokeCert)
          \<lparr>x509_ParseCertificate :=
             (\<lambda>der. Inr \<lparr>x509_SerialNumber = 1, x509_PublicKey = ''account-key''\<rparr>)\<rparr>"
  let ?pc4 = "\<lparr>x509_SerialNumber = 1, x509_PublicKey = ''account-key''\<rparr>"
  let ?req4 = "exRequest ''POST'' ''/acme/revoke-cert'' ''by-account''"
  have verified4: "verifyPOST ?wfe4 exState ?req4 False ResourceRevokeCert =
      (Verified ResourceRevokeCert exKey1 exReg1,
       snd (verifyPOST ?wfe4 exState ?req4 False ResourceRevokeCert))"
    by (simp add: prod_eq_iff run_defs)
  have unmarshal4: "json_unmarshalRevokeRequest ?wfe4 ResourceRevokeCert = Inr ''der1''"
    and provided4: "x509_ParseCertificate ?wfe4 ''der1'' = Inr ?pc4"
    and stored4: "SA_getCertificate ?wfe4 (core_SerialToString ?wfe4 (x509_SerialNumber ?pc4))
                    = Inr ?cert"
    and status4: "SA_getCertificateStatus ?wfe4
                    (core_SerialToString ?wfe4 (x509_SerialNumber ?pc4)) = Inr ?st"
    and d: "core_KeyDigestEquals ?wfe4 exKey1 (x509_PublicKey ?pc4)
            \<and> reg_ID exReg1 = cert_RegistrationID ?cert"
    by (simp_all add: ex_defs)
  from RevokeCertificate_authorization
    [OF verified4 unmarshal4 provided4 stored4 identical status4 notRevoked fresh] d
  have "filter raCall (emitted exState (RevokeCertificate ?wfe4 exState ?req4)) =
          [RA_RevokeCertificateWithReg ?pc4 0 1]"
    by (simp add: exReg1_def)
  ultimately show ?thesis
    by simp
qed

subsection \<open>The challenge handler: malformed paths\<close>

text \<open>
  Claim C10. Take a request whose path is \<open>/acme/challenge/\<close> followed by a suffix that
  does not split at its slashes into exactly two segments, or whose second segment is
  not a decimal integer of 64 bits (\<open>ParseInt\<close> fails). On a response not yet written,
  the \<open>Challenge\<close> handler answers with status 404, makes no call to the storage or
  registration authority, and consumes no nonce.
\<close>

theorem Challenge_malformed_path:
  assumes path: "req_URLPath request = ChallengePath @ suffix"
    and bad: "length (Split suffix CHR ''/'') \<noteq> 2
              \<or> ParseInt (Split suffix CHR ''/'' ! 1) = None"
    and fresh: "rw_Code (response s) = None"
  shows "\<exists>s'. Challenge wfe s request = Inr s'
             \<and> rw_Code (response s') = Some StatusNotFound
             \<and> filter backendCall (emitted s s') = []
             \<and> nonces s' = nonces s"
proof -
  have "Challenge wfe s request =
          Inr (sendError wfe s ''No such registration'' (DString (req_URLPath request))
                 StatusNotFound)"
    using path bad by (auto simp: Challenge_def Let_def)
  moreover have "rw_Code (response (sendError wfe s ''No such registration''
                    (DString (req_URLPath request)) StatusNotFound)) = Some StatusNotFound"
    using sendError_code [OF fresh] by (simp add: status_defs)
  ultimately show ?thesis
    by (simp add: emitted_def)
qed

theorem Challenge_malformed_path_witness:
  "(\<exists>s'. Challenge (exWfe ResourceChallenge) exState
             (exRequest ''GET'' ''/acme/challenge/az/x7'' []) = Inr s'
         \<and> rw_Code (response s') = Some StatusNotFound
         \<and> filter backendCall (emitted exState s') = [])
   \<and> (\<exists>s'. Challenge (exWfe ResourceChallenge) exState
             (exRequest ''GET'' ''/acme/challenge/az'' []) = Inr s'
         \<and> rw_Code (response s') = Some StatusNotFound
         \<and> filter backendCall (emitted exState s') = [])"
proof -
  have path1: "req_URLPath (exRequest ''GET'' ''/acme/challenge/az/x7'' []) = ChallengePath @ ''az/x7''"
    and path2: "req_URLPath (exRequest ''GET'' ''/acme/challenge/az'' []) = ChallengePath @ ''az''"
    by (simp_all add: exRequest_def ChallengePath_def)
  have bad1: "length (Split ''az/x7'' CHR ''/'') \<noteq> 2 \<or> ParseInt (Split ''az/x7'' CHR ''/'' ! 1) = None"
    and bad2: "length (Split ''az'' CHR ''/'') \<noteq> 2 \<or> ParseInt (Split ''az'' CHR ''/'' ! 1) = None"
    by (simp_all add: ex_paths)
  have fresh: "rw_Code (response exState) = None"
    by (simp add: exState_def)
  from Challenge_malformed_path [OF path1 bad1 fresh, where wfe = "exWfe ResourceChallenge"]
    Challenge_malformed_path [OF path2 bad2 fresh, where wfe = "exWfe ResourceChallenge"]
  show ?thesis
    by blast
qed

subsection \<open>Authorizations without an expiry\<close>

text \<open>
  Claim C9 does not hold of the code. When the storage returns an authorization whose
  \<open>Expires\<close> is nil, the handlers \<open>Authorization\<close> and \<open>Challenge\<close> enter the expiry branch
  (its guard tests for nil first) and build the message from \<open>*authz.Expires\<close>: the
  dereference of the nil pointer panics, and no 404 response is written.
\<close>

theorem expiry_nil_dereference:
  assumes nil: "authz_Expires authz = None"
  shows "(SA_getAuthorization wfe (parseIDFromPath (req_URLPath request)) = Inr authz
            \<longrightarrow> Authorization wfe s request = Inl NilPointerDereference)
       \<and> (req_URLPath request = ChallengePath @ suffix
            \<and> length (Split suffix CHR ''/'') = 2
            \<and> ParseInt (Split suffix CHR ''/'' ! 1) = Some challengeID
            \<and> SA_getAuthorization wfe (Split suffix CHR ''/'' ! 0) = Inr authz
            \<longrightarrow> Challenge wfe s request = Inl NilPointerDereference)"
  using nil
  by (simp add: Authorization_def Challenge_def Let_def expiredOrNil_def expiredMessage_def)

theorem expiry_nil_dereference_witness:
  "Authorization (exWfe ResourceChallenge) exState (exRequest ''GET'' ''/acme/authz/nil'' [])
     = Inl NilPointerDereference
   \<and> Challenge (exWfe ResourceChallenge) exState (exRequest ''GET'' ''/acme/challenge/nil/7'' [])
     = Inl NilPointerDereference"
proof -
  let ?wfe = "exWfe ResourceChallenge"
  have nil: "authz_Expires exAuthzNil = None"
    by (simp add: exAuthzNil_def)
  have a: "SA_getAuthorization ?wfe
             (parseIDFromPath (req_URLPath (exRequest ''GET'' ''/acme/authz/nil'' []))) = Inr exAuthzNil"
    by (simp add: exRequest_def ex_paths exWfe_def)
  have c: "req_URLPath (exRequest ''GET'' ''/acme/challenge/nil/7'' []) = ChallengePath @ ''nil/7''
         \<and> length (Split ''nil/7'' CHR ''/'') = 2
         \<and> ParseInt (Split ''nil/7'' CHR ''/'' ! 1) = Some 7
         \<and> SA_getAuthorization ?wfe (Split ''nil/7'' CHR ''/'' ! 0) = Inr exAuthzNil"
    by (simp add: exRequest_def ChallengePath_def ex_paths exWfe_def)
  from expiry_nil_dereference [OF nil, where wfe = ?wfe and s = exState
      and request = "exRequest ''GET'' ''/acme/authz/nil'' []"] a
  have "Authorization ?wfe exState (exRequest ''GET'' ''/acme/authz/nil'' []) = Inl NilPointerDereference"
    by blast
  moreover
  from expiry_nil_dereference [OF nil, where wfe = ?wfe and s = exState
      and request = "exRequest ''GET'' ''/acme/challenge/nil/7'' []"
      and suffix = "''nil/7''" and challengeID = 7] c
  have "Challenge ?wfe exState (exRequest ''GET'' ''/acme/challenge/nil/7'' []) = Inl NilPointerDereference"
    by blast
  ultimately show ?thesis by simp
qed

subsection \<open>A missing Content-Length header\<close>

text \<open>
  Claim C8, as amended. A request without a Content-Length header fails in
  \<open>verifyPOST\<close> with a \<open>LengthRequiredError\<close>. \<open>statusCodeFromError\<close> classifies that
  error to status 411 (Length Required), for which \<open>sendError\<close> picks the problem
  type "malformed". \<open>verifyPOST\<close> has six callers. On a response not yet written, five of
  them, the handlers \<open>NewRegistration\<close>, \<open>NewAuthorization\<close>, \<open>RevokeCertificate\<close>,
  \<open>NewCertificate\<close> and \<open>Registration\<close>, answer with status 411, count the problem type
  "malformed" and write a problem document of that type (or the fixed fallback body,
  when the document does not serialize). The sixth, the challenge update
  \<open>postChallenge\<close>, fixes the status of a failed verification itself and answers with
  status 400, also with the problem type "malformed".
\<close>

theorem LengthRequired_classification:
  assumes noLength: "req_Header request ''Content-Length'' = None"
    and fresh: "rw_Code (response s) = None"
  shows "statusCodeFromError (DErr (LengthRequiredError m)) = StatusLengthRequired
       \<and> problemTypeOfCode StatusLengthRequired = MalformedProblem
       \<and> (\<forall>s' \<in> {NewRegistration wfe s request, NewAuthorization wfe s request,
                    RevokeCertificate wfe s request, NewCertificate wfe s request,
                    Registration wfe s request}.
             rw_Code (response s') = Some StatusLengthRequired
           \<and> StatsIncProblemType MalformedProblem \<in> set (emitted s s')
           \<and> (\<exists>doc. rw_Body (response s') = rw_Body (response s) @ [doc]
                  \<and> (doc = Bytes marshalFallback
                       \<or> (\<exists>text. doc = JSON (JProblem \<lparr>problem_Type = MalformedProblem,
                                                        problem_Detail = text\<rparr>)))))
       \<and> (\<exists>s'. postChallenge wfe s request authz challengeIndex = Inr s'
             \<and> rw_Code (response s') = Some StatusBadRequest
             \<and> StatsIncProblemType MalformedProblem \<in> set (emitted s s')
             \<and> (\<exists>doc. rw_Body (response s') = rw_Body (response s) @ [doc]
                    \<and> (doc = Bytes marshalFallback
                         \<or> (\<exists>text. doc = JSON (JProblem \<lparr>problem_Type = MalformedProblem,
                                                          problem_Detail = text\<rparr>)))))"
proof -
  let ?err = "LengthRequiredError ''Content-Length header is required for POST.''"
  let ?s1 = "AddError ''missing Content-Length header on POST''
               (statsInc ''WFE.HTTP.ClientErrors.LengthRequiredError'' s)"
  have fresh1: "rw_Code (response ?s1) = None"
    using fresh by simp
  have since: "trace ?s1 = trace s @ [StatsInc ''WFE.HTTP.ClientErrors.LengthRequiredError'']"
    by simp
  have body: "rw_Body (response ?s1) = rw_Body (response s)"
    by simp
  have m411: "problemTypeOfCode StatusLengthRequired = MalformedProblem"
    and m400: "problemTypeOfCode StatusBadRequest = MalformedProblem"
    by (simp_all add: problemTypeOfCode_def status_defs)
  have handlers:
    "NewRegistration wfe s request = sendError wfe ?s1 malformedJWS (DErr ?err) StatusLengthRequired"
    "NewCertificate wfe s request = sendError wfe ?s1 malformedJWS (DErr ?err) StatusLengthRequired"
    "NewAuthorization wfe s request = sendError wfe ?s1 malformedJWS (DErr ?err) StatusLengthRequired"
    "RevokeCertificate wfe s request = sendError wfe ?s1 malformedJWS (DErr ?err) StatusLengthRequired"
    "Registration wfe s request = sendError wfe ?s1 malformedJWS (DErr ?err) StatusLengthRequired"
    "postChallenge wfe s request authz challengeIndex =
       Inr (sendError wfe ?s1 malformedJWS (DErr ?err) StatusBadRequest)"
    by (simp_all add: NewRegistration_def NewCertificate_def NewAuthorization_def
          RevokeCertificate_def Registration_def postChallenge_def
          verifyPOST_no_length [OF noLength])
  note a = sendError_malformed [OF fresh1 m411 since body, of wfe malformedJWS "DErr ?err"]
  note b = sendError_malformed [OF fresh1 m400 since body, of wfe malformedJWS "DErr ?err"]
  show ?thesis
    using a b m411 by (simp add: handlers)
qed

text \<open>
  Claim C8 as it is stated fails: a revoke-certificate request without a Content-Length
  header is answered with status 411, not 400.
\<close>

theorem LengthRequired_counterexample:
  "fst (verifyPOST (exWfe ResourceRevokeCert) exState
          (exRequestNoLength ''POST'' ''/acme/revoke-cert'' ''by-account'') False ResourceRevokeCert)
     = Rejected emptyRegistration
         (LengthRequiredError ''Content-Length header is required for POST.'')
   \<and> rw_Code (response (RevokeCertificate (exWfe ResourceRevokeCert) exState
          (exRequestNoLength ''POST'' ''/acme/revoke-cert'' ''by-account''))) = Some 411
   \<and> rw_Code (response (RevokeCertificate (exWfe ResourceRevokeCert) exState
          (exRequestNoLength ''POST'' ''/acme/revoke-cert'' ''by-account''))) \<noteq> Some 400"
proof -
  have noLength: "req_Header (exRequestNoLength ''POST'' ''/acme/revoke-cert'' ''by-account'')
                    ''Content-Length'' = None"
    by (simp add: exRequestNoLength_def)
  have fresh: "rw_Code (response (AddError ''missing Content-Length header on POST''
               (statsInc ''WFE.HTTP.ClientErrors.LengthRequiredError'' exState))) = None"
    by (simp add: exState_def)
  show ?thesis
    using sendError_code [OF fresh]
    by (simp add: RevokeCertificate_def verifyPOST_no_length [OF noLength] status_defs)
qed

theorem LengthRequired_classification_witness:
  "rw_Code (response (NewAuthorization (exWfe ResourceNewAuthz) exState
      (exRequestNoLength ''POST'' ''/acme/new-authz'' ''by-account''))) = Some StatusLengthRequired
   \<and> StatsIncProblemType MalformedProblem \<in> set (emitted exState
        (NewAuthorization (exWfe ResourceNewAuthz) exState
           (exRequestNoLength ''POST'' ''/acme/new-authz'' ''by-account'')))
   \<and> rw_Code (response (NewRegistration (exWfe ResourceNewAuthz) exState
      (exRequestNoLength ''POST'' ''/acme/new-authz'' ''by-account''))) = Some StatusLengthRequired
   \<and> rw_Code (response (NewCertificate (exWfe ResourceNewAuthz) exState
      (exRequestNoLength ''POST'' ''/acme/new-authz'' ''by-account''))) = Some StatusLengthRequired"
proof -
  have noLength: "req_Header (exRequestNoLength ''POST'' ''/acme/new-authz'' ''by-account'')
                    ''Content-Length'' = None"
    by (simp add: exRequestNoLength_def)
  have fresh: "rw_Code (response exState) = None"
    by (simp add: exState_def)
  from LengthRequired_classification [OF noLength fresh, where wfe = "exWfe ResourceNewAuthz"]
  show ?thesis
    by simp
qed

subsection \<open>Account update: the key is not changed\<close>

text \<open>
  Claim C6. The \<open>Registration\<close> handler makes at most one call to the registration
  authority. When it makes one, the request was authenticated against the registration
  \<open>currReg\<close> that the storage holds for the submitted key, and the call is
  \<open>UpdateRegistration\<close> with \<open>currReg\<close> as the account and, as the update, the
  registration parsed from the payload with its key replaced by the key of \<open>currReg\<close>:
  whatever key the submitted update carries, the forwarded update carries the stored key
  of the authenticated account, so the key before and after the update is the same.
\<close>

theorem Registration_key_immutable:
  "filter raCall (emitted s (Registration wfe s request)) = []
   \<or> (\<exists>body parsedJws submittedKey currReg payload update0 update.
          req_Body request = Some (Inr body)
        \<and> jose_ParseSigned wfe body = Inr parsedJws
        \<and> sig_JsonWebKey (Signatures parsedJws ! 0) = Some submittedKey
        \<and> SA_getRegistrationByKey wfe submittedKey = (currReg, None)
        \<and> jose_Verify wfe parsedJws (reg_Key currReg) = Inr payload
        \<and> json_unmarshalRegistration wfe payload = Inr update0
        \<and> update = update0\<lparr>reg_Key := reg_Key currReg\<rparr>
        \<and> reg_Key update = reg_Key currReg
        \<and> filter raCall (emitted s (Registration wfe s request)) =
              [RA_UpdateRegistration currReg update])"
proof -
  obtain r s1 where run: "verifyPOST wfe s request True ResourceRegistration = (r, s1)"
    by (cases "verifyPOST wfe s request True ResourceRegistration")
  from verifyPOST_effect [OF run]
  obtain evs where evs: "trace s1 = trace s @ evs" "\<forall>e\<in>set evs. \<not> raCall e"
    by auto
  then have none: "filter raCall evs = []"
    by (simp add: filter_empty_conv)
  show ?thesis
  proof (cases r)
    case (Rejected reg err)
    with run evs none have "filter raCall (emitted s (Registration wfe s request)) = []"
      by (simp add: Registration_def emitted_def)
    then show ?thesis ..
  next
    case (Verified payload key currReg)
    from verifyPOST_Verified_regCheck [OF run [unfolded Verified]]
    obtain body parsedJws submittedKey where auth:
      "req_Body request = Some (Inr body)"
      "jose_ParseSigned wfe body = Inr parsedJws"
      "sig_JsonWebKey (Signatures parsedJws ! 0) = Some submittedKey"
      "SA_getRegistrationByKey wfe submittedKey = (currReg, None)"
      "jose_Verify wfe parsedJws (reg_Key currReg) = Inr payload"
      by auto
    from Registration_calls [OF run [unfolded Verified] evs(1) none] auth show ?thesis
      by auto
  qed
qed

theorem Registration_key_immutable_witness:
  "json_unmarshalRegistration (exWfe ResourceRegistration) ResourceRegistration =
     Inr \<lparr>reg_ID = 0, reg_Key = exKey3, reg_Contact = [''mailto:a@example.com''],
          reg_Agreement = [], reg_InitialIP = None\<rparr>
   \<and> (\<exists>update. filter raCall (emitted exState (Registration (exWfe ResourceRegistration) exState
          (exRequest ''POST'' ''/acme/reg/1'' ''by-account''))) =
         [RA_UpdateRegistration exReg1 update]
       \<and> reg_Key update = exKey1)"
proof -
  let ?wfe = "exWfe ResourceRegistration"
  let ?req = "exRequest ''POST'' ''/acme/reg/1'' ''by-account''"
  have calls: "filter raCall (emitted exState (Registration ?wfe exState ?req)) =
      [RA_UpdateRegistration exReg1
         \<lparr>reg_ID = 0, reg_Key = exKey1, reg_Contact = [''mailto:a@example.com''],
            reg_Agreement = [], reg_InitialIP = None\<rparr>]"
    by (simp add: Registration_def run_defs emitted_def ex_paths)
  have submitted: "json_unmarshalRegistration ?wfe ResourceRegistration =
     Inr \<lparr>reg_ID = 0, reg_Key = exKey3, reg_Contact = [''mailto:a@example.com''],
          reg_Agreement = [], reg_InitialIP = None\<rparr>"
    by (simp add: exWfe_def)
  from Registration_key_immutable [of exState ?wfe ?req] calls
  have "\<exists>update. filter raCall (emitted exState (Registration ?wfe exState ?req)) =
         [RA_UpdateRegistration exReg1 update] \<and> reg_Key update = exKey1"
    by (auto simp: exReg1_def)
  with submitted show ?thesis
    by simp
qed

subsection \<open>Authorizations and challenges as the client sees them\<close>

text \<open>
  Claim C7. Start from a response with no body written. Whatever \<open>NewAuthorization\<close>,
  \<open>Authorization\<close> (the authorization read) and \<open>Challenge\<close> (the challenge read, for GET
  and HEAD, and the challenge update, for POST) write: every challenge serialized into
  the response has the identifier 0 and no account key, and every authorization
  serialized into it has an empty identifier, the owner 0 and only challenges with the
  identifier 0 and no account key.
\<close>

theorem display_clears_internal_fields:
  assumes fresh: "rw_Body (response s) = []"
    and written: "s' = NewAuthorization wfe s request
                  \<or> Authorization wfe s request = Inr s'
                  \<or> Challenge wfe s request = Inr s'"
  shows "(\<forall>c. JSON (JChallenge c) \<in> set (rw_Body (response s')) \<longrightarrow>
            chal_ID c = 0 \<and> chal_AccountKey c = None)
       \<and> (\<forall>a. JSON (JAuthorization a) \<in> set (rw_Body (response s')) \<longrightarrow>
            authz_ID a = [] \<and> authz_RegistrationID a = 0
            \<and> (\<forall>c\<in>set (authz_Challenges a). chal_ID c = 0 \<and> chal_AccountKey c = None))"
proof -
  from fresh have before: "list_all internalCleared (rw_Body (response s))"
    by simp
  from written NewAuthorization_cleared [OF before] Authorization_cleared [OF before]
    Challenge_cleared [OF before]
  have "list_all internalCleared (rw_Body (response s'))"
    by auto
  then have all: "\<And>b. b \<in> set (rw_Body (response s')) \<Longrightarrow> internalCleared b"
    by (simp add: list_all_iff)
  show ?thesis
  proof (intro conjI allI impI)
    fix c assume "JSON (JChallenge c) \<in> set (rw_Body (response s'))"
    from all [OF this] show "chal_ID c = 0" and "chal_AccountKey c = None"
      by simp_all
  next
    fix a assume "JSON (JAuthorization a) \<in> set (rw_Body (response s'))"
    from all [OF this]
    show "authz_ID a = []" and "authz_RegistrationID a = 0"
      and "\<forall>c\<in>set (authz_Challenges a). chal_ID c = 0 \<and> chal_AccountKey c = None"
      by (simp_all add: list_all_iff)
  qed
qed

theorem display_clears_internal_fields_witness:
  "(\<exists>a. rw_Body (response (NewAuthorization (exWfe ResourceNewAuthz) exState
            (exRequest ''POST'' ''/acme/new-authz'' ''by-account''))) = [JSON (JAuthorization a)]
        \<and> authz_ID a = [] \<and> authz_RegistrationID a = 0)
   \<and> (\<exists>s' a. Authorization (exWfe []) exState (exRequest ''GET'' ''/acme/authz/az'' []) = Inr s'
        \<and> rw_Body (response s') = [JSON (JAuthorization a)]
        \<and> authz_ID a = [] \<and> authz_RegistrationID a = 0)
   \<and> (\<exists>s' c. Challenge (exWfe []) exState (exRequest ''GET'' ''/acme/challenge/az/7'' []) = Inr s'
        \<and> rw_Body (response s') = [JSON (JChallenge c)]
        \<and> chal_ID c = 0 \<and> chal_AccountKey c = None)
   \<and> (\<exists>s' c. Challenge (exWfe ResourceChallenge) exState
                 (exRequest ''POST'' ''/acme/challenge/az/7'' ''by-account'') = Inr s'
        \<and> rw_Body (response s') = [JSON (JChallenge c)]
        \<and> chal_ID c = 0 \<and> chal_AccountKey c = None)"
proof -
  have fresh: "rw_Body (response exState) = []"
    by (simp add: exState_def)
  have new: "\<exists>a. rw_Body (response (NewAuthorization (exWfe ResourceNewAuthz) exState
            (exRequest ''POST'' ''/acme/new-authz'' ''by-account''))) = [JSON (JAuthorization a)]"
    by (simp add: NewAuthorization_def run_defs)
  have read: "\<exists>s' a. Authorization (exWfe []) exState (exRequest ''GET'' ''/acme/authz/az'' []) = Inr s'
        \<and> rw_Body (response s') = [JSON (JAuthorization a)]"
    by (simp add: Authorization_def Let_def ex_defs ex_paths expiredOrNil_def)
  have get: "\<exists>s' c. Challenge (exWfe []) exState (exRequest ''GET'' ''/acme/challenge/az/7'' []) = Inr s'
        \<and> rw_Body (response s') = [JSON (JChallenge c)]"
    by (simp add: Challenge_def Let_def ChallengePath_def ex_paths FindChallenge_def
          expiredOrNil_def getChallenge_def ex_defs)
  have post: "\<exists>s' c. Challenge (exWfe ResourceChallenge) exState
                 (exRequest ''POST'' ''/acme/challenge/az/7'' ''by-account'') = Inr s'
        \<and> rw_Body (response s') = [JSON (JChallenge c)]"
    by (simp add: Challenge_def Let_def ChallengePath_def ex_paths FindChallenge_def
          expiredOrNil_def postChallenge_def run_defs)
  from new display_clears_internal_fields [OF fresh, where wfe = "exWfe ResourceNewAuthz"
      and request = "exRequest ''POST'' ''/acme/new-authz'' ''by-account''"
      and s' = "NewAuthorization (exWfe ResourceNewAuthz) exState
                  (exRequest ''POST'' ''/acme/new-authz'' ''by-account'')"]
  have 1: "\<exists>a. rw_Body (response (NewAuthorization (exWfe ResourceNewAuthz) exState
            (exRequest ''POST'' ''/acme/new-authz'' ''by-account''))) = [JSON (JAuthorization a)]
        \<and> authz_ID a = [] \<and> authz_RegistrationID a = 0"
    by auto
  from read display_clears_internal_fields [OF fresh, where wfe = "exWfe []"
      and request = "exRequest ''GET'' ''/acme/authz/az'' []"]
  have 2: "\<exists>s' a. Authorization (exWfe []) exState (exRequest ''GET'' ''/acme/authz/az'' []) = Inr s'
        \<and> rw_Body (response s') = [JSON (JAuthorization a)]
        \<and> authz_ID a = [] \<and> authz_RegistrationID a = 0"
    by fastforce
  from get display_clears_internal_fields [OF fresh, where wfe = "exWfe []"
      and request = "exRequest ''GET'' ''/acme/challenge/az/7'' []"]
  have 3: "\<exists>s' c. Challenge (exWfe []) exState (exRequest ''GET'' ''/acme/challenge/az/7'' []) = Inr s'
        \<and> rw_Body (response s') = [JSON (JChallenge c)]
        \<and> chal_ID c = 0 \<and> chal_AccountKey c = None"
    by fastforce
  from post display_clears_internal_fields [OF fresh, where wfe = "exWfe ResourceChallenge"
      and request = "exRequest ''POST'' ''/acme/challenge/az/7'' ''by-account''"]
  have 4: "\<exists>s' c. Challenge (exWfe ResourceChallenge) exState
                 (exRequest ''POST'' ''/acme/challenge/az/7'' ''by-account'') = Inr s'
        \<and> rw_Body (response s') = [JSON (JChallenge c)]
        \<and> chal_ID c = 0 \<and> chal_AccountKey c = None"
    by fastforce
  from 1 2 3 4 show ?thesis
    by blast
qed

end
